theory Spec2Isabelle
  imports Main "HOL-Library.Sublist"
begin

section \<open>Values shared by both pipelines\<close>

text \<open>
  A Go \<open>string\<close> is a sequence of bytes, so it is a \<open>char list\<close> here and \<open>length\<close> is
  Go's \<open>len\<close>. A Go \<open>error\<close> is represented by its message: \<open>fmt.Errorf("ctx: %w", err)\<close>
  is the context followed by the message of \<open>err\<close>.
\<close>

type_synonym error = string

text \<open>The verb \<open>%d\<close> of package fmt: a decimal numeral, with a minus sign when negative.\<close>

fun digits :: "nat \<Rightarrow> string" where
  "digits n = (if n < 10 then [char_of (48 + n)]
               else digits (n div 10) @ [char_of (48 + n mod 10)])"

declare digits.simps [simp del]

definition fmt_d :: "int \<Rightarrow> string" where
  "fmt_d i = (if i < 0 then ''-'' @ digits (nat (- i)) else digits (nat i))"

subsection \<open>The observable state of a run\<close>

text \<open>
  An external process as \<open>exec.Command\<close> builds it: the argument vector and the working
  directory (\<open>cmd.Dir\<close>, empty when the code does not set it).
\<close>

datatype command = Command (argv: "string list") (dir: string)

text \<open>
  What a run leaves behind: the strings written to standard output (one per call of
  \<open>fmt.Print*\<close>), the external processes started, and the number of \<open>fmt.Scanf\<close> calls
  made on standard input.
\<close>

record st =
  out :: "string list"
  cmds :: "command list"
  scans :: nat

text \<open>What a finished process reports: its standard output, its combined output, its error.\<close>

record proc =
  p_stdout :: string
  p_combined :: string
  p_err :: "error option"

subsection \<open>The file system\<close>

text \<open>
  A path is the list of the components of a cleaned absolute path; \<open>filepath.Join p x\<close> is
  \<open>p @ [x]\<close>. A directory answers the lookup of a name: the name is absent, or it leads to a
  node, or the system refuses the lookup with an error (the directory may not be searched:
  \<open>EACCES\<close>; the name is too long: \<open>ENAMETOOLONG\<close>; the name is a link that loops:
  \<open>ELOOP\<close>; anything else: \<open>EOTHER\<close>). \<open>os.Stat\<close> walks the tree: an absent name is
  \<open>ENOENT\<close>, a step through a regular file is \<open>ENOTDIR\<close>, a refused lookup is the error
  it was refused with. \<open>os.IsNotExist\<close> holds of \<open>ENOENT\<close> only.
\<close>

type_synonym path = "string list"

datatype errno = ENOENT | ENOTDIR | EACCES | ELOOP | ENAMETOOLONG | EOTHER

datatype 'a entry = Absent | Entry 'a | Refused errno

datatype node = File | Dir "string \<Rightarrow> node entry"

fun os_Stat :: "node \<Rightarrow> path \<Rightarrow> errno option" where
  "os_Stat n [] = None"
| "os_Stat File (c # cs) = Some ENOTDIR"
| "os_Stat (Dir f) (c # cs) =
     (case f c of
        Absent \<Rightarrow> Some ENOENT
      | Refused e \<Rightarrow> Some e
      | Entry n \<Rightarrow> os_Stat n cs)"

definition os_IsNotExist :: "errno option \<Rightarrow> bool" where
  "os_IsNotExist e = (e = Some ENOENT)"

definition path_str :: "path \<Rightarrow> string" where
  "path_str p = (if p = [] then ''/'' else concat (map (\<lambda>c. ''/'' @ c) p))"

text \<open>The node a path leads to, and whether that node is a directory with a \<open>.git\<close> entry.\<close>

fun lookup_node :: "node \<Rightarrow> path \<Rightarrow> node option" where
  "lookup_node n [] = Some n"
| "lookup_node File (c # cs) = None"
| "lookup_node (Dir f) (c # cs) =
     (case f c of
        Absent \<Rightarrow> None
      | Refused e \<Rightarrow> None
      | Entry n \<Rightarrow> lookup_node n cs)"

definition has_git_entry :: "node \<Rightarrow> path \<Rightarrow> bool" where
  "has_git_entry root p =
     (case lookup_node root p of
        Some (Dir f) \<Rightarrow> (case f ''.git'' of Entry n \<Rightarrow> True | _ \<Rightarrow> False)
      | _ \<Rightarrow> False)"

text \<open>The directory with the listed entries, every lookup allowed.\<close>

definition dir_of :: "(string \<times> node) list \<Rightarrow> node" where
  "dir_of es = Dir (\<lambda>c. case map_of es c of None \<Rightarrow> Absent | Some n \<Rightarrow> Entry n)"

subsection \<open>The crash service's data (package types)\<close>

record RaygunApplication =
  app_Identifier :: string
  app_Name :: string

record ErrorGroup =
  eg_Identifier :: string
  eg_Message :: string
  eg_Status :: string
  eg_Count :: int

record StackFrame =
  sf_FileName :: string
  sf_LineNumber :: int
  sf_MethodName :: string

record ErrorInfo =
  ei_Message :: string
  ei_ClassName :: string
  ei_StackTrace :: "StackFrame list"

record RequestInfo =
  ri_URL :: string
  ri_Method :: string

record CrashReportDetail =
  crd_Error :: ErrorInfo
  crd_Request :: RequestInfo

record response =
  StatusCode :: int
  Body :: string

subsection \<open>Templates (package text/template)\<close>

text \<open>
  The text of the embedded files \<open>prompt.tmpl\<close> is fixed when the program is built; the
  parsed template is a parameter here. The fragment of text/template modelled: literal text, the
  action \<open>{{.F}}\<close> and the action \<open>{{printf "%s" .F}}\<close> on a field \<open>F\<close> of the data.
  A field holds a string or a byte slice. text/template prints a value with
  \<open>fmt.Fprint\<close> and escapes nothing: a string is written as it is, a byte slice as the
  bracketed list of its bytes in decimal; \<open>%s\<close> writes either as it is. A field the data
  does not have makes \<open>Execute\<close> fail.
\<close>

datatype tvalue = VString string | VBytes string

datatype tnode = TText string | TField string | TPrintfS string

type_synonym template = "tnode list"

fun unwords :: "string list \<Rightarrow> string" where
  "unwords [] = []"
| "unwords [x] = x"
| "unwords (x # y # ys) = x @ '' '' @ unwords (y # ys)"

definition fmt_v_bytes :: "string \<Rightarrow> string" where
  "fmt_v_bytes b = ''['' @ unwords (map (\<lambda>c. digits (of_char c)) b) @ '']''"

fun exec_node :: "(string \<times> tvalue) list \<Rightarrow> tnode \<Rightarrow> error + string" where
  "exec_node data (TText s) = Inr s"
| "exec_node data (TField f) =
     (case map_of data f of
        None \<Rightarrow> Inl (''can't evaluate field '' @ f)
      | Some (VString s) \<Rightarrow> Inr s
      | Some (VBytes b) \<Rightarrow> Inr (fmt_v_bytes b))"
| "exec_node data (TPrintfS f) =
     (case map_of data f of
        None \<Rightarrow> Inl (''can't evaluate field '' @ f)
      | Some (VString s) \<Rightarrow> Inr s
      | Some (VBytes b) \<Rightarrow> Inr b)"

fun Execute :: "template \<Rightarrow> (string \<times> tvalue) list \<Rightarrow> string \<Rightarrow> error + string" where
  "Execute [] data buf = Inr buf"
| "Execute (n # ns) data buf =
     (case exec_node data n of
        Inl e \<Rightarrow> Inl e
      | Inr s \<Rightarrow> Execute ns data (buf @ s))"

subsection \<open>The environment of a run\<close>

text \<open>
  Everything the program asks of its surroundings. The answer of an external process and
  the file system may depend on the processes run before; the \<open>k\<close>-th call of
  \<open>fmt.Scanf("%d", &selection)\<close> yields an error or the integer read. The JSON codec is
  the library's, and so is \<open>strings.TrimSpace\<close>. \<open>goos\<close> is \<open>runtime.GOOS\<close>.
\<close>

record world =
  getenv :: "string \<Rightarrow> string"
  filepath_Abs :: "string \<Rightarrow> error + path"
  fs :: "command list \<Rightarrow> node"
  exec :: "command list \<Rightarrow> command \<Rightarrow> proc"
  http_get :: "string \<Rightarrow> (string \<times> string) list \<Rightarrow> error + response"
  scanf_d :: "nat \<Rightarrow> error + int"
  unmarshal_apps :: "string \<Rightarrow> error + RaygunApplication list"
  unmarshal_groups :: "string \<Rightarrow> error + ErrorGroup list"
  unmarshal_details :: "string \<Rightarrow> error + CrashReportDetail list"
  MarshalIndent :: "CrashReportDetail \<Rightarrow> error + string"
  TrimSpace :: "string \<Rightarrow> string"
  goos :: string

definition print :: "string \<Rightarrow> st \<Rightarrow> st" where
  "print x s = s\<lparr>out := out s @ [x]\<rparr>"

definition run :: "world \<Rightarrow> command \<Rightarrow> st \<Rightarrow> proc \<times> st" where
  "run w c s = (exec w (cmds s) c, s\<lparr>cmds := cmds s @ [c]\<rparr>)"

definition Scanf_d :: "world \<Rightarrow> st \<Rightarrow> (error + int) \<times> st" where
  "Scanf_d w s = (scanf_d w (scans s), s\<lparr>scans := Suc (scans s)\<rparr>)"

subsection \<open>What \<open>fmt.Scanf("%d")\<close> makes of the text on standard input\<close>










section \<open>The errors pipeline (package analyze)\<close>

record errors_flags =
  raygunProject :: string
  raygunToken :: string
  repoPath :: string
  branch :: string

definition raygunAPIBase :: string where
  "raygunAPIBase = ''https://api.raygun.com/v3''"

definition claudeModelHaiku :: string where
  "claudeModelHaiku = ''Haiku''"

definition auth_headers :: "string \<Rightarrow> (string \<times> string) list" where
  "auth_headers token =
     [(''Authorization'', ''Bearer '' @ token), (''Content-Type'', ''application/json'')]"

text \<open>\<open>fetchApplications\<close>, lines 192-215.\<close>

definition fetchApplications :: "world \<Rightarrow> string \<Rightarrow> int \<Rightarrow> error + RaygunApplication list" where
  "fetchApplications w token count =
     (let endpointURL = raygunAPIBase @ ''/applications?count='' @ fmt_d count in
      case http_get w endpointURL (auth_headers token) of
        Inl err \<Rightarrow> Inl (''failed to fetch applications: '' @ err)
      | Inr response \<Rightarrow>
          if StatusCode response \<noteq> 200
          then Inl (''raygun API returned status '' @ fmt_d (StatusCode response) @ '': ''
                    @ Body response)
          else (case unmarshal_apps w (Body response) of
                  Inl err \<Rightarrow> Inl (''failed to decode applications: '' @ err)
                | Inr applications \<Rightarrow> Inr applications))"

text \<open>\<open>listErrorGroups\<close>, lines 218-241.\<close>

definition listErrorGroups :: "world \<Rightarrow> string \<Rightarrow> RaygunApplication \<Rightarrow> error + ErrorGroup list" where
  "listErrorGroups w token app =
     (let endpointURL = raygunAPIBase @ ''/applications/'' @ app_Identifier app
                        @ ''/error-groups'' in
      case http_get w endpointURL (auth_headers token) of
        Inl err \<Rightarrow> Inl (''failed to fetch error groups: '' @ err)
      | Inr response \<Rightarrow>
          if StatusCode response \<noteq> 200
          then Inl (''raygun API returned status '' @ fmt_d (StatusCode response) @ '': ''
                    @ Body response)
          else (case unmarshal_groups w (Body response) of
                  Inl err \<Rightarrow> Inl (''failed to decode error groups: '' @ err)
                | Inr errorGroups \<Rightarrow> Inr errorGroups))"

text \<open>\<open>getErrorReportDetail\<close>, lines 269-296.\<close>

definition getErrorReportDetail :: "world \<Rightarrow> string \<Rightarrow> string \<Rightarrow> string \<Rightarrow> error + CrashReportDetail" where
  "getErrorReportDetail w token appIdentifier errorGroupIdentifier =
     (let endpointURL = raygunAPIBase @ ''/applications/'' @ appIdentifier
                        @ ''/error-groups/'' @ errorGroupIdentifier @ ''/errors?count=1'' in
      case http_get w endpointURL (auth_headers token) of
        Inl err \<Rightarrow> Inl (''failed to fetch error detail: '' @ err)
      | Inr response \<Rightarrow>
          if StatusCode response \<noteq> 200
          then Inl (''raygun API returned status '' @ fmt_d (StatusCode response) @ '': ''
                    @ Body response)
          else (case unmarshal_details w (Body response) of
                  Inl err \<Rightarrow> Inl (''failed to decode error detail: '' @ err)
                | Inr details \<Rightarrow>
                    (case details of
                       [] \<Rightarrow> Inl ''no error details found''
                     | d # _ \<Rightarrow> Inr d)))"

text \<open>\<open>chooseRaygunApplication\<close>, lines 152-189. \<open>lo.Find\<close> returns the first match.\<close>

definition chooseRaygunApplication ::
  "world \<Rightarrow> string \<Rightarrow> string \<Rightarrow> st \<Rightarrow> (error + RaygunApplication) \<times> st" where
  "chooseRaygunApplication w project token s =
     (case fetchApplications w token 20 of
        Inl err \<Rightarrow> (Inl (''failed to fetch applications: '' @ err), s)
      | Inr applications \<Rightarrow>
          if length applications = 0 then (Inl ''no applications found'', s)
          else if project \<noteq> []
          then (case find (\<lambda>app. app_Name app = project) applications of
                  Some application \<Rightarrow> (Inr application, s)
                | None \<Rightarrow> (Inl (''raygun project '' @ [CHR 0x27] @ project @ [CHR 0x27]
                                 @ '' not found''), s))
          else
            (let s1 = print ''Available Raygun projects:\<newline>'' s;
                 s2 = fold (\<lambda>(i, app). print (''  '' @ fmt_d (int i + 1) @ ''. '' @ app_Name app
                                               @ ''\<newline>''))
                        (enumerate 0 applications) s1;
                 s3 = print ''\<newline>Select project number: '' s2
             in case Scanf_d w s3 of
                  (Inl err, s4) \<Rightarrow> (Inl (''invalid selection: '' @ err), s4)
                | (Inr selection, s4) \<Rightarrow>
                    if selection < 1 \<or> selection > int (length applications)
                    then (Inl ''selection out of range'', s4)
                    else (Inr (applications ! nat (selection - 1)), s4)))"

text \<open>The message shown for an error group, lines 248-251 of \<open>chooseErrorGroup\<close>.\<close>

definition display_msg :: "string \<Rightarrow> string" where
  "display_msg msg = (if length msg > 80 then take 77 msg @ ''...'' else msg)"

text \<open>\<open>chooseErrorGroup\<close>, lines 244-266.\<close>

definition chooseErrorGroup ::
  "world \<Rightarrow> ErrorGroup list \<Rightarrow> st \<Rightarrow> (error + ErrorGroup) \<times> st" where
  "chooseErrorGroup w errorGroups s =
     (let s1 = print ''\<newline>Active error groups:\<newline>'' s;
          s2 = fold (\<lambda>(i, eg). print (''  '' @ fmt_d (int i + 1) @ ''. ['' @ fmt_d (eg_Count eg)
                                        @ '' occurrences] '' @ display_msg (eg_Message eg)
                                        @ ''\<newline>''))
                 (enumerate 0 errorGroups) s1;
          s3 = print ''\<newline>Select error group number: '' s2
      in case Scanf_d w s3 of
           (Inl err, s4) \<Rightarrow> (Inl (''invalid selection: '' @ err), s4)
         | (Inr selection, s4) \<Rightarrow>
             if selection < 1 \<or> selection > int (length errorGroups)
             then (Inl ''selection out of range'', s4)
             else (Inr (errorGroups ! nat (selection - 1)), s4))"

text \<open>\<open>checkoutBranch\<close>, lines 298-319. The results of fetch and pull are dropped.\<close>

definition checkoutBranch :: "world \<Rightarrow> string \<Rightarrow> string \<Rightarrow> st \<Rightarrow> error option \<times> st" where
  "checkoutBranch w repoDir branchName s =
     (let (fetched, s1) = run w (Command [''git'', ''fetch'', ''--all''] repoDir) s;
          (checked, s2) = run w (Command [''git'', ''checkout'', branchName] repoDir) s1
      in case p_err checked of
           Some err \<Rightarrow> (Some (''failed to checkout branch '' @ branchName @ '': '' @ err
                             @ ''\<newline>'' @ p_combined checked), s2)
         | None \<Rightarrow>
             (let (pulled, s3) = run w (Command [''git'', ''pull''] repoDir) s2
              in (None, print (''Checked out branch: '' @ branchName @ ''\<newline>'') s3)))"

text \<open>
  The Output Publisher, as all three copies of it are written (lines 365-371 here,
  196-203 of the review pipeline, 30-37 of package claude): the command is \<open>open\<close>.
  The three copies differ in the word of the messages (\<open>output\<close> or \<open>review\<close>).
\<close>

definition open_output :: "world \<Rightarrow> string \<Rightarrow> path \<Rightarrow> st \<Rightarrow> st" where
  "open_output w what filePath s =
     (if os_Stat (fs w (cmds s)) filePath = None
      then (let s1 = print (''Opening '' @ what @ '' file: '' @ path_str filePath @ ''\<newline>'') s;
                (opened, s2) = run w (Command [''open'', path_str filePath] []) s1
            in case p_err opened of
                 Some err \<Rightarrow> print (''Warning: could not open '' @ what @ '' file: '' @ err
                                   @ ''\<newline>'') s2
               | None \<Rightarrow> s2)
      else s)"

text \<open>\<open>launchClaudeErrorAnalysis\<close>, lines 328-374; \<open>tmpl\<close> is the parsed \<open>prompt.tmpl\<close>.\<close>

definition errors_promptData :: "string \<Rightarrow> string \<Rightarrow> path \<Rightarrow> (string \<times> tvalue) list" where
  "errors_promptData errorMessage crashDetails analysisFilePath =
     [(''ErrorMessage'', VString errorMessage),
      (''CrashDetails'', VBytes crashDetails),
      (''AnalysisFilePath'', VString (path_str analysisFilePath))]"

definition launchClaudeErrorAnalysis ::
  "world \<Rightarrow> error + template \<Rightarrow> path \<Rightarrow> path \<Rightarrow> CrashReportDetail \<Rightarrow> st
     \<Rightarrow> error option \<times> st" where
  "launchClaudeErrorAnalysis w tmpl repoDir errorFilePath crashDetail s =
     (let s1 = print ''Launching Claude Code for crash analysis...\<newline>'' s in
      case MarshalIndent w crashDetail of
        Inl err \<Rightarrow> (Some (''failed to marshal crash detail: '' @ err), s1)
      | Inr crashDetailJson \<Rightarrow>
          (let data = errors_promptData (ei_Message (crd_Error crashDetail)) crashDetailJson
                        errorFilePath in
           case tmpl of
             Inl err \<Rightarrow> (Some (''failed to parse prompt template: '' @ err), s1)
           | Inr t \<Rightarrow>
               (case Execute t data [] of
                  Inl err \<Rightarrow> (Some (''failed to execute prompt template: '' @ err), s1)
                | Inr prompt \<Rightarrow>
                    (let (ran, s2) = run w (Command [''claude'', ''--model='' @ claudeModelHaiku,
                                                   ''--dangerously-skip-permissions'', ''-p'', prompt]
                                             (path_str repoDir)) s1
                     in case p_err ran of
                          Some err \<Rightarrow> (Some (''failed to run claude: '' @ err), s2)
                        | None \<Rightarrow> (None, open_output w ''output'' errorFilePath s2)))))"

text \<open>The first lines of both \<open>start\<close> functions (79-88 here, 53-62 of the review pipeline).\<close>

definition resolveRepo :: "world \<Rightarrow> string \<Rightarrow> st \<Rightarrow> error + path" where
  "resolveRepo w p s =
     (case filepath_Abs w p of
        Inl err \<Rightarrow> Inl (''failed to resolve repo path: '' @ err)
      | Inr absRepoPath \<Rightarrow>
          if os_IsNotExist (os_Stat (fs w (cmds s)) (absRepoPath @ [''.git'']))
          then Inl (''not a git repository: '' @ path_str absRepoPath)
          else Inr absRepoPath)"

text \<open>\<open>start\<close> of the errors pipeline, lines 69-149.\<close>

definition errors_start :: "world \<Rightarrow> error + template \<Rightarrow> errors_flags \<Rightarrow> st \<Rightarrow> error option \<times> st" where
  "errors_start w tmpl fl s =
     (let token = (if raygunToken fl = [] then getenv w ''RAYGUN_TOKEN'' else raygunToken fl) in
      if token = []
      then (Some ''raygun token required: use --token flag or set RAYGUN_TOKEN environment variable'', s)
      else
      (case resolveRepo w (repoPath fl) s of
        Inl err \<Rightarrow> (Some err, s)
      | Inr absRepoPath \<Rightarrow>
      (case chooseRaygunApplication w (raygunProject fl) token s of
        (Inl err, s1) \<Rightarrow> (Some (''error selecting project: '' @ err), s1)
      | (Inr raygunApp, s1) \<Rightarrow>
      (let s2 = print (''Selected raygun project: '' @ app_Name raygunApp @ ''\<newline>\<newline>'') s1 in
      (case listErrorGroups w token raygunApp of
        Inl err \<Rightarrow> (Some (''error fetching crash reports: '' @ err), s2)
      | Inr errorGroups \<Rightarrow>
      if length errorGroups = 0
      then (None, print ''No crash reports found for this project.\<newline>'' s2)
      else
      (let activeErrorGroups = filter (\<lambda>errorGroup. eg_Status errorGroup = ''active'') errorGroups in
      if length activeErrorGroups = 0
      then (None, print ''No active crash reports found for this project.\<newline>'' s2)
      else
      (case chooseErrorGroup w activeErrorGroups s2 of
        (Inl err, s3) \<Rightarrow> (Some (''error selecting crash: '' @ err), s3)
      | (Inr selectedErrorGroup, s3) \<Rightarrow>
      (let s4 = print (''\<newline>Analyzing crash: '' @ eg_Message selectedErrorGroup @ ''\<newline>'') s3 in
      (case getErrorReportDetail w token (app_Identifier raygunApp)
             (eg_Identifier selectedErrorGroup) of
        Inl err \<Rightarrow> (Some (''error fetching crash details: '' @ err), s4)
      | Inr errorDetail \<Rightarrow>
      (case (if branch fl \<noteq> [] then checkoutBranch w (path_str absRepoPath) (branch fl) s4
             else (None, s4)) of
        (Some err, s5) \<Rightarrow> (Some (''error checking out branch: '' @ err), s5)
      | (None, s5) \<Rightarrow>
      (case launchClaudeErrorAnalysis w tmpl absRepoPath (absRepoPath @ [''RaygunError.md''])
              errorDetail s5 of
        (Some err, s6) \<Rightarrow> (Some (''error launching Claude analysis: '' @ err), s6)
      | (None, s6) \<Rightarrow>
          (None, print ''\<newline>Claude error analysis complete\<newline>'' s6))))))))))))"

section \<open>The review pipeline (package ai\_review)\<close>

record review_flags =
  flagBranch :: string
  flagTargetBranch :: string
  flagRepoPath :: string

definition claudeModelSonnet :: string where
  "claudeModelSonnet = ''Sonnet''"

text \<open>\<open>getCurrentBranch\<close>, lines 97-105.\<close>

definition getCurrentBranch :: "world \<Rightarrow> string \<Rightarrow> st \<Rightarrow> (error + string) \<times> st" where
  "getCurrentBranch w repoDir s =
     (let (ran, s1) = run w (Command [''git'', ''rev-parse'', ''--abbrev-ref'', ''HEAD''] repoDir) s
      in case p_err ran of
           Some err \<Rightarrow> (Inl err, s1)
         | None \<Rightarrow> (Inr (TrimSpace w (p_stdout ran)), s1))"

text \<open>\<open>getDiff\<close>, lines 107-152.\<close>

definition getDiff :: "world \<Rightarrow> string \<Rightarrow> string \<Rightarrow> string \<Rightarrow> st \<Rightarrow> (error + string) \<times> st" where
  "getDiff w repoDir branchName targetBranch s =
     (let s1 = print (''Getting diff between '' @ branchName @ '' and '' @ targetBranch
                      @ ''...\<newline>'') s;
          (checked, s2) = run w (Command [''git'', ''rev-parse'', ''--verify'',
                                          ''origin/'' @ targetBranch] repoDir) s1;
          targetRef = (if p_err checked \<noteq> None then targetBranch else ''origin/'' @ targetBranch);
          (stats3, s3) = run w (Command [''git'', ''diff'', ''--stat'', targetRef @ ''...HEAD'']
                                 repoDir) s2;
          (stats, s4) = (if p_err stats3 \<noteq> None
                         then run w (Command [''git'', ''diff'', ''--stat'', targetRef] repoDir) s3
                         else (stats3, s3))
      in case p_err stats of
           Some err \<Rightarrow> (Inl (''failed to get diff stats: '' @ err), s4)
         | None \<Rightarrow>
             (let (diff3, s5) = run w (Command [''git'', ''diff'', targetRef @ ''...HEAD'']
                                        repoDir) s4;
                  (diff, s6) = (if p_err diff3 \<noteq> None
                                then run w (Command [''git'', ''diff'', targetRef] repoDir) s5
                                else (diff3, s5))
              in case p_err diff of
                   Some err \<Rightarrow> (Inl (''failed to get diff: '' @ err), s6)
                 | None \<Rightarrow>
                     (Inr (''=== DIFF STATS ===\<newline>'' @ p_stdout stats
                           @ ''\<newline>\<newline>=== FULL DIFF ===\<newline>'' @ p_stdout diff), s6)))"

text \<open>\<open>launchClaudeReview\<close>, lines 162-206; \<open>tmpl\<close> is the parsed \<open>prompt.tmpl\<close>.\<close>

definition review_promptData :: "string \<Rightarrow> string \<Rightarrow> string \<Rightarrow> path \<Rightarrow> (string \<times> tvalue) list" where
  "review_promptData branchName targetBranch diff reviewFilePath =
     [(''BranchName'', VString branchName),
      (''TargetBranch'', VString targetBranch),
      (''Diff'', VString diff),
      (''ReviewFilePath'', VString (path_str reviewFilePath))]"

definition launchClaudeReview ::
  "world \<Rightarrow> error + template \<Rightarrow> string \<Rightarrow> path \<Rightarrow> string \<Rightarrow> string \<Rightarrow> st
     \<Rightarrow> error option \<times> st" where
  "launchClaudeReview w tmpl targetBranch repoDir branchName diff s =
     (let s1 = print ''Launching Claude Code for review...\<newline>'' s;
          reviewFilePath = repoDir @ [''Review.md''];
          data = review_promptData branchName targetBranch diff reviewFilePath
      in case tmpl of
           Inl err \<Rightarrow> (Some (''failed to parse prompt template: '' @ err), s1)
         | Inr t \<Rightarrow>
             (case Execute t data [] of
                Inl err \<Rightarrow> (Some (''failed to execute prompt template: '' @ err), s1)
              | Inr prompt \<Rightarrow>
                  (let (ran, s2) = run w (Command [''claude'', ''--model='' @ claudeModelSonnet,
                                                 ''--dangerously-skip-permissions'', ''-p'', prompt]
                                           (path_str repoDir)) s1
                   in case p_err ran of
                        Some err \<Rightarrow> (Some (''failed to run claude: '' @ err), s2)
                      | None \<Rightarrow> (None, open_output w ''review'' reviewFilePath s2))))"

text \<open>\<open>start\<close> of the review pipeline, lines 52-95.\<close>

definition review_start :: "world \<Rightarrow> error + template \<Rightarrow> review_flags \<Rightarrow> st \<Rightarrow> error option \<times> st" where
  "review_start w tmpl fl s =
     (case resolveRepo w (flagRepoPath fl) s of
        Inl err \<Rightarrow> (Some err, s)
      | Inr repoDir \<Rightarrow>
      (let s1 = print (''Reviewing repository: '' @ path_str repoDir @ ''\<newline>'') s in
      (case (if flagBranch fl = [] then getCurrentBranch w (path_str repoDir) s1
             else (Inr (flagBranch fl), s1)) of
        (Inl err, s2) \<Rightarrow> (Some (''failed to get current branch: '' @ err), s2)
      | (Inr branchName, s2) \<Rightarrow>
      (let s3 = print (''Branch: '' @ branchName @ '' (comparing against '' @ flagTargetBranch fl
                       @ '')\<newline>'') s2 in
      (case getDiff w (path_str repoDir) branchName (flagTargetBranch fl) s3 of
        (Inl err, s4) \<Rightarrow> (Some (''failed to get diff: '' @ err), s4)
      | (Inr diff, s4) \<Rightarrow>
      if TrimSpace w diff = []
      then (None, print ''No differences found between branches.\<newline>'' s4)
      else
      (case launchClaudeReview w tmpl (flagTargetBranch fl) repoDir branchName diff s4 of
        (Some err, s5) \<Rightarrow> (Some (''failed to launch Claude review: '' @ err), s5)
      | (None, s5) \<Rightarrow> (None, print ''Claude code review complete.\<newline>'' s5)))))))"

section \<open>Package claude\<close>

text \<open>\<open>LaunchClaude\<close>, lines 14-40 of \<open>utils/claude/claude.go\<close>; \<open>model\<close> may be nil.\<close>

definition LaunchClaude ::
  "world \<Rightarrow> path \<Rightarrow> path \<Rightarrow> string \<Rightarrow> string option \<Rightarrow> st \<Rightarrow> error option \<times> st" where
  "LaunchClaude w repoDir outputFilePath prompt model s =
     (let claudeModel = (case model of
                           None \<Rightarrow> claudeModelSonnet
                         | Some m \<Rightarrow> if m \<noteq> [] then m else claudeModelSonnet);
          (ran, s1) = run w (Command [''claude'', ''--model='' @ claudeModel,
                                      ''--dangerously-skip-permissions'', ''-p'', prompt]
                               (path_str repoDir)) s
      in case p_err ran of
           Some err \<Rightarrow> (Some (''failed to run claude: '' @ err), s1)
         | None \<Rightarrow> (None, open_output w ''output'' outputFilePath s1))"

section \<open>Notions the properties are stated with\<close>

text \<open>
  Well-formed UTF-8, as \<open>utf8.ValidString\<close> decides it: every character is one byte below
  \<open>0x80\<close>, or a lead byte followed by its one, two or three continuation bytes, without
  overlong forms and surrogates. A text cut inside a character is not well-formed.
\<close>

definition in_range :: "nat \<Rightarrow> nat \<Rightarrow> char \<Rightarrow> bool" where
  "in_range lo hi c = (lo \<le> of_char c \<and> (of_char c :: nat) \<le> hi)"

fun utf8_valid :: "string \<Rightarrow> bool" where
  "utf8_valid [] = True"
| "utf8_valid (c # cs) =
     (let n = (of_char c :: nat) in
      if n < 0x80 then utf8_valid cs
      else if 0xC2 \<le> n \<and> n \<le> 0xDF
      then (case cs of
              c1 # r \<Rightarrow> in_range 0x80 0xBF c1 \<and> utf8_valid r
            | _ \<Rightarrow> False)
      else if 0xE0 \<le> n \<and> n \<le> 0xEF
      then (case cs of
              c1 # c2 # r \<Rightarrow>
                in_range (if n = 0xE0 then 0xA0 else 0x80) (if n = 0xED then 0x9F else 0xBF) c1
                \<and> in_range 0x80 0xBF c2 \<and> utf8_valid r
            | _ \<Rightarrow> False)
      else if 0xF0 \<le> n \<and> n \<le> 0xF4
      then (case cs of
              c1 # c2 # c3 # r \<Rightarrow>
                in_range (if n = 0xF0 then 0x90 else 0x80) (if n = 0xF4 then 0x8F else 0xBF) c1
                \<and> in_range 0x80 0xBF c2 \<and> in_range 0x80 0xBF c3 \<and> utf8_valid r
            | _ \<Rightarrow> False)
      else False)"

text \<open>The lines a run wrote after the state \<open>s\<close>, and the processes it started after it.\<close>

definition new_out :: "st \<Rightarrow> st \<Rightarrow> string list" where
  "new_out s s' = drop (length (out s)) (out s')"

definition new_cmds :: "st \<Rightarrow> st \<Rightarrow> command list" where
  "new_cmds s s' = drop (length (cmds s)) (cmds s')"

text \<open>The lines \<open>chooseErrorGroup\<close> shows for a list of error groups, prompt included.\<close>

definition group_menu :: "ErrorGroup list \<Rightarrow> string list" where
  "group_menu gs =
     ''\<newline>Active error groups:\<newline>''
     # map (\<lambda>(i, eg). ''  '' @ fmt_d (int i + 1) @ ''. ['' @ fmt_d (eg_Count eg)
                       @ '' occurrences] '' @ display_msg (eg_Message eg) @ ''\<newline>'')
         (enumerate 0 gs)
     @ [''\<newline>Select error group number: '']"


text \<open>The message of lines 205, 231 and 282 for a response whose status is not 200.\<close>

definition status_msg :: "response \<Rightarrow> string" where
  "status_msg resp =
     ''raygun API returned status '' @ fmt_d (StatusCode resp) @ '': '' @ Body resp"

text \<open>The message of line 169 for a project name no application has.\<close>

definition not_found_msg :: "string \<Rightarrow> string" where
  "not_found_msg project =
     ''raygun project '' @ [CHR 0x27] @ project @ [CHR 0x27] @ '' not found''"

text \<open>A step that reads nothing from standard input and only adds to the output.\<close>

definition keeps :: "st \<Rightarrow> st \<Rightarrow> bool" where
  "keeps s s' = (scans s' = scans s \<and> prefix (out s) (out s'))"




subsection \<open>A concrete environment for the examples\<close>

definition ok_proc :: proc where
  "ok_proc = \<lparr>p_stdout = [], p_combined = [], p_err = None\<rparr>"

definition failed_proc :: proc where
  "failed_proc = \<lparr>p_stdout = [], p_combined = ''fatal'', p_err = Some ''exit status 128''\<rparr>"

definition app1 :: RaygunApplication where
  "app1 = \<lparr>app_Identifier = ''a1'', app_Name = ''MyApp-dev''\<rparr>"

definition app2 :: RaygunApplication where
  "app2 = \<lparr>app_Identifier = ''a2'', app_Name = ''MyApp-prod''\<rparr>"

definition group1 :: ErrorGroup where
  "group1 = \<lparr>eg_Identifier = ''g1'', eg_Message = ''nil pointer'', eg_Status = ''resolved'',
              eg_Count = 3\<rparr>"

definition group2 :: ErrorGroup where
  "group2 = \<lparr>eg_Identifier = ''g2'', eg_Message = ''index out of range'', eg_Status = ''active'',
              eg_Count = 7\<rparr>"

definition detail1 :: CrashReportDetail where
  "detail1 = \<lparr>crd_Error = \<lparr>ei_Message = ''index out of range'', ei_ClassName = ''panic'',
                             ei_StackTrace = []\<rparr>,
               crd_Request = \<lparr>ri_URL = ''/x'', ri_Method = ''GET''\<rparr>\<rparr>"

definition repo_tree :: node where
  "repo_tree =
     dir_of [(''repo'', dir_of [(''.git'', dir_of []), (''Review.md'', File),
                                (''RaygunError.md'', File), (''notes.txt'', File)]),
             (''empty'', dir_of [])]"

definition ascii_space :: "char \<Rightarrow> bool" where
  "ascii_space c = (c \<in> set [CHR 0x09, CHR 0x0A, CHR 0x0B, CHR 0x0C, CHR 0x0D, CHR 0x20])"

definition ascii_trim :: "string \<Rightarrow> string" where
  "ascii_trim x = rev (dropWhile ascii_space (rev (dropWhile ascii_space x)))"

definition world0 :: world where
  "world0 =
     \<lparr>getenv = (\<lambda>_. []),
      filepath_Abs = (\<lambda>p. Inr [p]),
      fs = (\<lambda>_. repo_tree),
      exec = (\<lambda>_ _. ok_proc),
      http_get = (\<lambda>_ _. Inr \<lparr>StatusCode = 200, Body = ''[]''\<rparr>),
      scanf_d = (\<lambda>_. Inr 2),
      unmarshal_apps = (\<lambda>_. Inr [app1, app2]),
      unmarshal_groups = (\<lambda>_. Inr [group1, group2]),
      unmarshal_details = (\<lambda>_. Inr [detail1]),
      MarshalIndent = (\<lambda>_. Inr ''{}''),
      TrimSpace = ascii_trim,
      goos = ''linux''\<rparr>"

definition st0 :: st where
  "st0 = \<lparr>out = [], cmds = [], scans = 0\<rparr>"

text \<open>The crash service answers 200 with the empty JSON array.\<close>

definition world_no_details :: world where
  "world_no_details =
     world0\<lparr>unmarshal_details :=
              (\<lambda>b. if b = ''[]'' then Inr [] else Inl ''unexpected end of JSON input'')\<rparr>"

definition world_no_apps :: world where
  "world_no_apps =
     world0\<lparr>unmarshal_apps :=
              (\<lambda>b. if b = ''[]'' then Inr [] else Inl ''unexpected end of JSON input'')\<rparr>"

text \<open>
  A message of 82 bytes: 76 letters and three times the two-byte character U+00E9,
  so that byte 77 is the lead byte of a character.
\<close>

definition split_input :: string where
  "split_input =
     replicate 76 (CHR ''a'') @ [CHR 0xC3, CHR 0xA9, CHR 0xC3, CHR 0xA9, CHR 0xC3, CHR 0xA9]"

text \<open>Every git command but \<open>git checkout main\<close> fails, as without a network.\<close>

definition world_offline :: world where
  "world_offline =
     world0\<lparr>exec := (\<lambda>_ c. if argv c = [''git'', ''checkout'', ''main''] then ok_proc
                            else failed_proc)\<rparr>"

text \<open>No git command succeeds.\<close>

definition world_no_git :: world where
  "world_no_git = world0\<lparr>exec := (\<lambda>_ _. failed_proc)\<rparr>"

text \<open>The repository path resolves to the given absolute path.\<close>

definition world_repo :: "path \<Rightarrow> world" where
  "world_repo a = world0\<lparr>filepath_Abs := (\<lambda>_. Inr a)\<rparr>"

text \<open>
  The repository path is the regular file \<open>/repo/notes.txt\<close>; no process can be started
  with a file as its working directory.
\<close>

definition world_file :: world where
  "world_file =
     world0\<lparr>filepath_Abs := (\<lambda>_. Inr [''repo'', ''notes.txt'']),
            exec := (\<lambda>_ _. \<lparr>p_stdout = [], p_combined = [],
                              p_err = Some ''chdir /repo/notes.txt: not a directory''\<rparr>)\<rparr>"

definition flags_file :: review_flags where
  "flags_file = \<lparr>flagBranch = [], flagTargetBranch = ''main'',
                 flagRepoPath = ''/repo/notes.txt''\<rparr>"


text \<open>No program called \<open>open\<close> is installed, as on Linux.\<close>

definition world_no_viewer :: world where
  "world_no_viewer =
     world0\<lparr>exec := (\<lambda>_ c. if take 1 (argv c) = [''open'']
                            then \<lparr>p_stdout = [], p_combined = [],
                                  p_err = Some ''executable file not found in $PATH''\<rparr>
                            else ok_proc)\<rparr>"

text \<open>The crash service refuses the token.\<close>

definition world_unauthorized :: world where
  "world_unauthorized =
     world0\<lparr>http_get := (\<lambda>_ _. Inr \<lparr>StatusCode = 401, Body = ''Unauthorized''\<rparr>)\<rparr>"

text \<open>The user types 1.\<close>

definition world_pick1 :: world where
  "world_pick1 = world0\<lparr>scanf_d := (\<lambda>_. Inr 1)\<rparr>"

text \<open>The crash service lists one error group, which is resolved.\<close>

definition world_resolved :: world where
  "world_resolved = world0\<lparr>unmarshal_groups := (\<lambda>_. Inr [group1])\<rparr>"

definition flags0 :: errors_flags where
  "flags0 = \<lparr>raygunProject = ''MyApp-prod'', raygunToken = ''tok'', repoPath = ''repo'',
             branch = []\<rparr>"

section \<open>Properties\<close>

subsection \<open>Output, processes and the state\<close>

lemma print_simps [simp]:
  "out (print x s) = out s @ [x]" "cmds (print x s) = cmds s" "scans (print x s) = scans s"
  by (simp_all add: print_def)

lemma run_simps [simp]:
  "fst (run w c s) = exec w (cmds s) c"
  "out (snd (run w c s)) = out s" "cmds (snd (run w c s)) = cmds s @ [c]"
  "scans (snd (run w c s)) = scans s"
  by (simp_all add: run_def)

lemma new_out_append [simp]: "out s' = out s @ xs \<Longrightarrow> new_out s s' = xs"
  by (simp add: new_out_def)

lemma fold_print:
  "fold (\<lambda>(i, x). print (g i x)) xs s = s\<lparr>out := out s @ map (\<lambda>(i, x). g i x) xs\<rparr>"
  by (induction xs arbitrary: s) (auto simp: print_def)

lemma keeps_refl [simp]: "keeps s s"
  by (simp add: keeps_def)

lemma keeps_print [simp]: "keeps s (print x s)"
  by (simp add: keeps_def)

lemma keeps_trans: "keeps s s' \<Longrightarrow> keeps s' s'' \<Longrightarrow> keeps s s''"
  by (auto simp: keeps_def)

lemma keeps_print_after: "keeps s s' \<Longrightarrow> keeps s (print x s')"
  by (auto simp: keeps_def intro: prefix_order.trans)

lemma open_output_keeps:
  "scans (open_output w what p s) = scans s \<and> prefix (out s) (out (open_output w what p s))
   \<and> prefix (cmds s) (cmds (open_output w what p s))"
  by (simp add: open_output_def Let_def split_beta split: option.splits)

lemma open_output_cases:
  "open_output w what p s =
     (if os_Stat (fs w (cmds s)) p \<noteq> None then s
      else (case p_err (exec w (cmds s) (Command [''open'', path_str p] [])) of
              None \<Rightarrow> s\<lparr>out := out s @ [''Opening '' @ what @ '' file: '' @ path_str p @ ''\<newline>''],
                         cmds := cmds s @ [Command [''open'', path_str p] []]\<rparr>
            | Some err \<Rightarrow>
                s\<lparr>out := out s @ [''Opening '' @ what @ '' file: '' @ path_str p @ ''\<newline>'',
                                  ''Warning: could not open '' @ what @ '' file: '' @ err @ ''\<newline>''],
                  cmds := cmds s @ [Command [''open'', path_str p] []]\<rparr>))"
  by (simp add: open_output_def Let_def run_def print_def split: option.splits)

lemma open_output_goos: "open_output (w\<lparr>goos := g\<rparr>) what p s = open_output w what p s"
  by (simp add: open_output_def run_def)

lemma checkoutBranch_keeps:
  "scans (snd (checkoutBranch w d b s)) = scans s \<and> prefix (out s) (out (snd (checkoutBranch w d b s)))"
  by (simp add: checkoutBranch_def Let_def split_beta split: option.splits)

lemma launchClaudeErrorAnalysis_keeps:
  "scans (snd (launchClaudeErrorAnalysis w tmpl d f c s)) = scans s
   \<and> prefix (out s) (out (snd (launchClaudeErrorAnalysis w tmpl d f c s)))"
proof -
  have "prefix (out s) (out s @ [''Launching Claude Code for crash analysis...\<newline>''])" by simp
  moreover have "\<And>s'. prefix (out s @ [''Launching Claude Code for crash analysis...\<newline>'']) (out s')
     \<Longrightarrow> prefix (out s) (out s')"
    using append_prefixD by blast
  ultimately show ?thesis
    using open_output_keeps
    by (auto simp: launchClaudeErrorAnalysis_def Let_def split_beta 
        split: option.splits sum.splits intro!: prefix_order.trans[OF _ open_output_keeps[THEN conjunct2, THEN conjunct1]])
qed

lemma keeps_checkout: "keeps s (snd (checkoutBranch w d b s))"
  using checkoutBranch_keeps by (simp add: keeps_def)

lemma keeps_launch: "keeps s (snd (launchClaudeErrorAnalysis w tmpl d f c s))"
  using launchClaudeErrorAnalysis_keeps by (simp add: keeps_def)

lemma includes_mid: "sublist x (p @ x @ q)"
  by simp

lemma includes_end: "sublist x (p @ q @ r @ x)"
  by (metis append_assoc sublist_append_leftI)

subsection \<open>The two menus\<close>

lemma chooseErrorGroup_eq:
  "chooseErrorGroup w gs s =
     (case scanf_d w (scans s) of
        Inl e \<Rightarrow> Inl (''invalid selection: '' @ e)
      | Inr k \<Rightarrow> if k < 1 \<or> k > int (length gs) then Inl ''selection out of range''
                 else Inr (gs ! nat (k - 1)),
      s\<lparr>out := out s @ group_menu gs, scans := Suc (scans s)\<rparr>)"
  by (simp add: chooseErrorGroup_def Let_def Scanf_d_def fold_print group_menu_def print_def
           split: sum.splits)


lemma chooseRaygunApplication_flag:
  "project \<noteq> [] \<Longrightarrow>
   chooseRaygunApplication w project token s =
     (case fetchApplications w token 20 of
        Inl err \<Rightarrow> Inl (''failed to fetch applications: '' @ err)
      | Inr apps \<Rightarrow>
          if apps = [] then Inl ''no applications found''
          else (case find (\<lambda>a. app_Name a = project) apps of
                  Some a \<Rightarrow> Inr a
                | None \<Rightarrow> Inl (not_found_msg project)),
      s)"
  by (simp add: chooseRaygunApplication_def not_found_msg_def split: sum.splits option.splits)

subsection \<open>The example environment\<close>

lemma world0_fetch: "fetchApplications world0 ''tok'' 20 = Inr [app1, app2]"
  by (simp add: world0_def fetchApplications_def)

lemma no_apps_fetch: "fetchApplications world_no_apps ''tok'' 20 = Inr []"
  by (simp add: world_no_apps_def world0_def fetchApplications_def)

lemma world0_resolve: "resolveRepo world0 ''repo'' st0 = Inr [''repo'']"
  by (simp add: resolveRepo_def world0_def st0_def repo_tree_def dir_of_def os_IsNotExist_def)

lemma world0_groups: "listErrorGroups world0 ''tok'' app2 = Inr [group1, group2]"
  by (simp add: listErrorGroups_def world0_def)

lemma world0_choose: "chooseRaygunApplication world0 ''MyApp-prod'' ''tok'' st0 = (Inr app2, st0)"
  by (simp add: chooseRaygunApplication_flag world0_fetch app1_def app2_def)

lemma resolveRepo_groups:
  "resolveRepo (w\<lparr>unmarshal_groups := x\<rparr>) p s = resolveRepo w p s"
  by (simp add: resolveRepo_def cong: sum.case_cong)

lemma chooseRaygunApplication_groups:
  "chooseRaygunApplication (w\<lparr>unmarshal_groups := x\<rparr>) project token s
     = chooseRaygunApplication w project token s"
  by (simp add: chooseRaygunApplication_def fetchApplications_def Scanf_d_def
        cong: sum.case_cong if_cong)

subsection \<open>The active-group filter\<close>

lemma errors_start_after_groups:
  assumes "token = (if raygunToken fl = [] then getenv w ''RAYGUN_TOKEN'' else raygunToken fl)"
    and "token \<noteq> []"
    and "resolveRepo w (repoPath fl) s = Inr d"
    and "chooseRaygunApplication w (raygunProject fl) token s = (Inr app, s1)"
    and "listErrorGroups w token app = Inr gs"
    and "act = filter (\<lambda>g. eg_Status g = ''active'') gs"
    and "s2 = print (''Selected raygun project: '' @ app_Name app @ ''\<newline>\<newline>'') s1"
  shows "errors_start w tmpl fl s =
    (if gs = [] then (None, print ''No crash reports found for this project.\<newline>'' s2)
     else if act = [] then (None, print ''No active crash reports found for this project.\<newline>'' s2)
     else
      (case chooseErrorGroup w act s2 of
        (Inl err, s3) \<Rightarrow> (Some (''error selecting crash: '' @ err), s3)
      | (Inr selectedErrorGroup, s3) \<Rightarrow>
      (let s4 = print (''\<newline>Analyzing crash: '' @ eg_Message selectedErrorGroup @ ''\<newline>'') s3 in
      (case getErrorReportDetail w token (app_Identifier app)
             (eg_Identifier selectedErrorGroup) of
        Inl err \<Rightarrow> (Some (''error fetching crash details: '' @ err), s4)
      | Inr errorDetail \<Rightarrow>
      (case (if branch fl \<noteq> [] then checkoutBranch w (path_str d) (branch fl) s4
             else (None, s4)) of
        (Some err, s5) \<Rightarrow> (Some (''error checking out branch: '' @ err), s5)
      | (None, s5) \<Rightarrow>
      (case launchClaudeErrorAnalysis w tmpl d (d @ [''RaygunError.md''])
              errorDetail s5 of
        (Some err, s6) \<Rightarrow> (Some (''error launching Claude analysis: '' @ err), s6)
      | (None, s6) \<Rightarrow>
          (None, print ''\<newline>Claude error analysis complete\<newline>'' s6)))))))"
  using assms(2-5) unfolding errors_start_def assms(1)[symmetric] assms(6,7)
  by (simp add: Let_def)

lemma errors_tail_keeps:
  "keeps s4 (snd
      (case getErrorReportDetail w token appId groupId of
        Inl err \<Rightarrow> (Some (''error fetching crash details: '' @ err), s4)
      | Inr errorDetail \<Rightarrow>
      (case (if branch fl \<noteq> [] then checkoutBranch w (path_str d) (branch fl) s4
             else (None, s4)) of
        (Some err, s5) \<Rightarrow> (Some (''error checking out branch: '' @ err), s5)
      | (None, s5) \<Rightarrow>
      (case launchClaudeErrorAnalysis w tmpl d (d @ [''RaygunError.md''])
              errorDetail s5 of
        (Some err, s6) \<Rightarrow> (Some (''error launching Claude analysis: '' @ err), s6)
      | (None, s6) \<Rightarrow>
          (None, print ''\<newline>Claude error analysis complete\<newline>'' s6)))))"
proof (cases "getErrorReportDetail w token appId groupId")
  case (Inl e)
  then show ?thesis by simp
next
  case (Inr detail)
  obtain co s5 where co: "(if branch fl \<noteq> [] then checkoutBranch w (path_str d) (branch fl) s4
             else (None, s4)) = (co, s5)"
    by (cases "(if branch fl \<noteq> [] then checkoutBranch w (path_str d) (branch fl) s4
             else (None, s4))") 
  have k5: "keeps s4 s5"
    using co keeps_checkout[of s4 w "path_str d" "branch fl"] by (auto split: if_splits)
  obtain r6 s6 where l: "launchClaudeErrorAnalysis w tmpl d (d @ [''RaygunError.md'']) detail s5 = (r6, s6)"
    by (cases "launchClaudeErrorAnalysis w tmpl d (d @ [''RaygunError.md'']) detail s5")
  have k6: "keeps s5 s6"
    using keeps_launch[of s5 w tmpl d "d @ [''RaygunError.md'']" detail] l by simp
  show ?thesis
    using Inr co l k5 keeps_trans[OF k5 k6] keeps_print_after[OF keeps_trans[OF k5 k6]]
    by (cases co; cases r6) simp_all
qed

text \<open>
  Claim C1. Let a run of the errors pipeline have a token, a repository, an application and
  the list \<open>gs\<close> of its error groups, and let \<open>act\<close> be the groups of \<open>gs\<close> whose status is
  \<open>active\<close>. If \<open>act\<close> is empty the run returns no error, reads nothing from standard
  input, starts no process and prints one line after the project line, which is not the
  selection prompt. Otherwise the menu shown is exactly the menu of \<open>act\<close>, one number is
  read, a number \<open>k\<close> between 1 and the length of \<open>act\<close> selects the \<open>k\<close>-th group of \<open>act\<close>,
  and any other number ends the run with a selection error.
\<close>

theorem only_active_groups_offered:
  assumes tok: "token = (if raygunToken fl = [] then getenv w ''RAYGUN_TOKEN'' else raygunToken fl)"
    and ne: "token \<noteq> []"
    and repo: "resolveRepo w (repoPath fl) s = Inr d"
    and app: "chooseRaygunApplication w (raygunProject fl) token s = (Inr app, s1)"
    and gs: "listErrorGroups w token app = Inr gs"
    and act: "act = filter (\<lambda>g. eg_Status g = ''active'') gs"
    and s2: "s2 = print (''Selected raygun project: '' @ app_Name app @ ''\<newline>\<newline>'') s1"
    and run: "errors_start w tmpl fl s = (r, s')"
  shows "(act = [] \<longrightarrow>
            r = None \<and> scans s' = scans s1 \<and> cmds s' = cmds s1
          \<and> out s' = out s2 @ [if gs = [] then ''No crash reports found for this project.\<newline>''
                               else ''No active crash reports found for this project.\<newline>'']
          \<and> ''\<newline>Select error group number: '' \<notin> set (new_out s1 s'))
       \<and> (act \<noteq> [] \<longrightarrow>
            prefix (out s2 @ group_menu act) (out s') \<and> scans s' = Suc (scans s1)
          \<and> (\<forall>k. scanf_d w (scans s1) = Inr k \<and> 1 \<le> k \<and> k \<le> int (length act) \<longrightarrow>
                prefix (out s2 @ group_menu act
                        @ [''\<newline>Analyzing crash: '' @ eg_Message (act ! nat (k - 1)) @ ''\<newline>''])
                       (out s'))
          \<and> (\<forall>k. scanf_d w (scans s1) = Inr k \<and> \<not> (1 \<le> k \<and> k \<le> int (length act)) \<longrightarrow>
                r = Some (''error selecting crash: selection out of range'')))"
proof -
  note eq = errors_start_after_groups [OF tok ne repo app gs act s2, of tmpl]
  {
    assume e: "act = []"
    have res: "(r, s') = (None, print (if gs = [] then ''No crash reports found for this project.\<newline>''
                               else ''No active crash reports found for this project.\<newline>'') s2)"
      using eq run e by (simp split: if_splits)
    then have "r = None \<and> scans s' = scans s1 \<and> cmds s' = cmds s1
          \<and> out s' = out s2 @ [if gs = [] then ''No crash reports found for this project.\<newline>''
                               else ''No active crash reports found for this project.\<newline>'']
          \<and> ''\<newline>Select error group number: '' \<notin> set (new_out s1 s')"
      using s2 by (auto simp: new_out_def)
  }
  moreover
  {
    assume n: "act \<noteq> []"
    then have gne: "gs \<noteq> []" using act by auto
    define s3 where "s3 = s2\<lparr>out := out s2 @ group_menu act, scans := Suc (scans s2)\<rparr>"
    have s3: "out s3 = out s2 @ group_menu act" "scans s3 = Suc (scans s1)"
      using s2 by (simp_all add: s3_def)
    have ch: "snd (chooseErrorGroup w act s2) = s3"
      by (simp add: chooseErrorGroup_eq s3_def)
    have k: "keeps s3 s'"
    proof (cases "fst (chooseErrorGroup w act s2)")
      case (Inl e)
      then have "s' = s3" using eq run n gne ch
        by (cases "chooseErrorGroup w act s2") auto
      then show ?thesis by simp
    next
      case (Inr g)
      then have c: "chooseErrorGroup w act s2 = (Inr g, s3)" using ch
        by (cases "chooseErrorGroup w act s2") auto
      have "keeps (print (''\<newline>Analyzing crash: '' @ eg_Message g @ ''\<newline>'') s3)
              (snd (errors_start w tmpl fl s))"
        apply (simp only: eq n gne c if_False prod.case sum.case Let_def)
        apply (rule errors_tail_keeps)
        done
      then have "keeps (print (''\<newline>Analyzing crash: '' @ eg_Message g @ ''\<newline>'') s3) s'"
        using run by simp
      then show ?thesis by (rule keeps_trans [OF keeps_print])
    qed
    have "prefix (out s2 @ group_menu act) (out s') \<and> scans s' = Suc (scans s1)
          \<and> (\<forall>k. scanf_d w (scans s1) = Inr k \<and> 1 \<le> k \<and> k \<le> int (length act) \<longrightarrow>
                prefix (out s2 @ group_menu act
                        @ [''\<newline>Analyzing crash: '' @ eg_Message (act ! nat (k - 1)) @ ''\<newline>''])
                       (out s'))
          \<and> (\<forall>k. scanf_d w (scans s1) = Inr k \<and> \<not> (1 \<le> k \<and> k \<le> int (length act)) \<longrightarrow>
                r = Some (''error selecting crash: selection out of range''))"
    proof (intro conjI allI impI)
      show "prefix (out s2 @ group_menu act) (out s')" using k s3 by (simp add: keeps_def)
      show "scans s' = Suc (scans s1)" using k s3 by (simp add: keeps_def)
    next
      fix k assume a: "scanf_d w (scans s1) = Inr k \<and> 1 \<le> k \<and> k \<le> int (length act)"
      then have c: "chooseErrorGroup w act s2 = (Inr (act ! nat (k - 1)), s3)"
        using s2 by (simp add: chooseErrorGroup_eq s3_def)
      have "keeps (print (''\<newline>Analyzing crash: '' @ eg_Message (act ! nat (k - 1)) @ ''\<newline>'') s3)
              (snd (errors_start w tmpl fl s))"
        apply (simp only: eq n gne c if_False prod.case sum.case Let_def)
        apply (rule errors_tail_keeps)
        done
      then show "prefix (out s2 @ group_menu act
                        @ [''\<newline>Analyzing crash: '' @ eg_Message (act ! nat (k - 1)) @ ''\<newline>''])
                       (out s')"
        using s3 run by (simp add: keeps_def)
    next
      fix k assume a: "scanf_d w (scans s1) = Inr k \<and> \<not> (1 \<le> k \<and> k \<le> int (length act))"
      then have c: "chooseErrorGroup w act s2 = (Inl ''selection out of range'', s3)"
        using s2 by (auto simp: chooseErrorGroup_eq s3_def)
      show "r = Some (''error selecting crash: selection out of range'')"
        using eq run n gne c by simp
    qed
  }
  ultimately show ?thesis by blast
qed

theorem only_active_groups_offered_witness:
  "filter (\<lambda>g. eg_Status g = ''active'') [group1, group2] = [group2]
   \<and> fst (errors_start world0 (Inr []) flags0 st0)
       = Some ''error selecting crash: selection out of range''
   \<and> prefix ([''Selected raygun project: MyApp-prod\<newline>\<newline>''] @ group_menu [group2])
        (out (snd (errors_start world0 (Inr []) flags0 st0)))
   \<and> prefix ([''Selected raygun project: MyApp-prod\<newline>\<newline>''] @ group_menu [group2]
               @ [''\<newline>Analyzing crash: index out of range\<newline>''])
        (out (snd (errors_start world_pick1 (Inr []) flags0 st0)))
   \<and> filter (\<lambda>g. eg_Status g = ''active'') [group1] = []
   \<and> errors_start world_resolved (Inr []) flags0 st0
       = (None, \<lparr>out = [''Selected raygun project: MyApp-prod\<newline>\<newline>'',
                        ''No active crash reports found for this project.\<newline>''],
                 cmds = [], scans = 0\<rparr>)"
proof -
  have tok1: "''tok'' = (if raygunToken flags0 = [] then getenv world_pick1 ''RAYGUN_TOKEN''
                         else raygunToken flags0)"
    by (simp add: flags0_def)
  have repo1: "resolveRepo world_pick1 (repoPath flags0) st0 = Inr [''repo'']"
    by (simp add: resolveRepo_def world_pick1_def world0_def st0_def repo_tree_def dir_of_def
          os_IsNotExist_def flags0_def)
  have app1': "chooseRaygunApplication world_pick1 (raygunProject flags0) ''tok'' st0 = (Inr app2, st0)"
    by (simp add: chooseRaygunApplication_flag fetchApplications_def world_pick1_def world0_def
          app1_def app2_def flags0_def)
  have gs1: "listErrorGroups world_pick1 ''tok'' app2 = Inr [group1, group2]"
    by (simp add: listErrorGroups_def world_pick1_def world0_def)
  have scan1: "scanf_d world_pick1 (scans st0) = Inr 1" by (simp add: world_pick1_def)
  have tok: "''tok'' = (if raygunToken flags0 = [] then getenv world0 ''RAYGUN_TOKEN'' else raygunToken flags0)"
    and tok': "''tok'' = (if raygunToken flags0 = [] then getenv world_resolved ''RAYGUN_TOKEN'' else raygunToken flags0)"
    and ne: "''tok'' \<noteq> []"
    by (simp_all add: flags0_def)
  have repo: "resolveRepo world0 (repoPath flags0) st0 = Inr [''repo'']"
    and repo': "resolveRepo world_resolved (repoPath flags0) st0 = Inr [''repo'']"
    using world0_resolve
    by (simp_all add: flags0_def world_resolved_def resolveRepo_groups)
  have app: "chooseRaygunApplication world0 (raygunProject flags0) ''tok'' st0 = (Inr app2, st0)"
    using world0_choose by (simp add: flags0_def)
  have app': "chooseRaygunApplication world_resolved (raygunProject flags0) ''tok'' st0 = (Inr app2, st0)"
    using world0_choose
    by (simp add: flags0_def world_resolved_def chooseRaygunApplication_groups)
  have gs': "listErrorGroups world_resolved ''tok'' app2 = Inr [group1]"
    by (simp add: listErrorGroups_def world_resolved_def world0_def)
  have act: "filter (\<lambda>g. eg_Status g = ''active'') [group1, group2] = [group2]"
    and act': "filter (\<lambda>g. eg_Status g = ''active'') [group1] = []"
    by (simp_all add: group1_def group2_def)
  have scan: "scanf_d world0 (scans st0) = Inr 2" by (simp add: world0_def)
  have o: "out (print (''Selected raygun project: '' @ app_Name app2 @ ''\<newline>\<newline>'') st0)
           = [''Selected raygun project: MyApp-prod\<newline>\<newline>'']"
    by (simp add: st0_def app2_def)
  note a = only_active_groups_offered [OF tok ne repo app world0_groups act [symmetric] refl
             surjective_pairing [of "errors_start world0 (Inr []) flags0 st0"]]
  note b = only_active_groups_offered [OF tok' ne repo' app' gs' act' [symmetric] refl
             surjective_pairing [of "errors_start world_resolved (Inr []) flags0 st0"]]
  note c = only_active_groups_offered [OF tok1 ne repo1 app1' gs1 act [symmetric] refl
             surjective_pairing [of "errors_start world_pick1 (Inr []) flags0 st0"]]
  have 1: "fst (errors_start world0 (Inr []) flags0 st0)
       = Some ''error selecting crash: selection out of range''"
    using a scan by simp
  have 2: "prefix ([''Selected raygun project: MyApp-prod\<newline>\<newline>''] @ group_menu [group2])
        (out (snd (errors_start world0 (Inr []) flags0 st0)))"
    using a o by simp
  have 3: "errors_start world_resolved (Inr []) flags0 st0
       = (None, \<lparr>out = [''Selected raygun project: MyApp-prod\<newline>\<newline>'',
                        ''No active crash reports found for this project.\<newline>''],
                 cmds = [], scans = 0\<rparr>)"
    using b o by (cases "errors_start world_resolved (Inr []) flags0 st0") (simp add: st0_def group1_def)
  have 4: "prefix ([''Selected raygun project: MyApp-prod\<newline>\<newline>''] @ group_menu [group2]
               @ [''\<newline>Analyzing crash: index out of range\<newline>''])
        (out (snd (errors_start world_pick1 (Inr []) flags0 st0)))"
    using c o scan1 by (simp add: group2_def)
  show ?thesis using 1 2 3 4 act act' by simp
qed

subsection \<open>The Diff Collector\<close>

lemma getDiff_run:
  assumes c0: "exec w (cmds s) (Command [''git'', ''rev-parse'', ''--verify'', ''origin/'' @ t] repoDir) = c0"
    and ref: "ref = (if p_err c0 \<noteq> None then t else ''origin/'' @ t)"
    and h1: "h1 = cmds s @ [Command [''git'', ''rev-parse'', ''--verify'', ''origin/'' @ t] repoDir]"
    and x3: "exec w h1 (Command [''git'', ''diff'', ''--stat'', ref @ ''...HEAD''] repoDir) = x3"
    and x2: "exec w (h1 @ [Command [''git'', ''diff'', ''--stat'', ref @ ''...HEAD''] repoDir])
               (Command [''git'', ''diff'', ''--stat'', ref] repoDir) = x2"
    and x: "x = (if p_err x3 \<noteq> None then x2 else x3)"
    and h2: "h2 = (if p_err x3 \<noteq> None
                   then h1 @ [Command [''git'', ''diff'', ''--stat'', ref @ ''...HEAD''] repoDir,
                              Command [''git'', ''diff'', ''--stat'', ref] repoDir]
                   else h1 @ [Command [''git'', ''diff'', ''--stat'', ref @ ''...HEAD''] repoDir])"
    and y3: "exec w h2 (Command [''git'', ''diff'', ref @ ''...HEAD''] repoDir) = y3"
    and y2: "exec w (h2 @ [Command [''git'', ''diff'', ref @ ''...HEAD''] repoDir])
               (Command [''git'', ''diff'', ref] repoDir) = y2"
    and y: "y = (if p_err y3 \<noteq> None then y2 else y3)"
    and h3: "h3 = (if p_err y3 \<noteq> None
                   then h2 @ [Command [''git'', ''diff'', ref @ ''...HEAD''] repoDir,
                              Command [''git'', ''diff'', ref] repoDir]
                   else h2 @ [Command [''git'', ''diff'', ref @ ''...HEAD''] repoDir])"
    and s1: "s1 = s\<lparr>out := out s @ [''Getting diff between '' @ b @ '' and '' @ t @ ''...\<newline>'']\<rparr>"
  shows "getDiff w repoDir b t s =
     (case p_err x of
        Some err \<Rightarrow> (Inl (''failed to get diff stats: '' @ err), s1\<lparr>cmds := h2\<rparr>)
      | None \<Rightarrow>
          (case p_err y of
             Some err \<Rightarrow> (Inl (''failed to get diff: '' @ err), s1\<lparr>cmds := h3\<rparr>)
           | None \<Rightarrow> (Inr (''=== DIFF STATS ===\<newline>'' @ p_stdout x
                           @ ''\<newline>\<newline>=== FULL DIFF ===\<newline>'' @ p_stdout y),
                      s1\<lparr>cmds := h3\<rparr>)))"
  using assms
  by (cases "p_err c0"; cases "p_err x3"; cases "p_err x2"; cases "p_err y3"; cases "p_err y2")
     (simp_all add: getDiff_def Let_def run_def print_def)

text \<open>
  Claim C2. \<open>getDiff\<close> first checks \<open>origin/<target>\<close>; the reference of every diff
  command it then runs is \<open>origin/<target>\<close> when the check succeeded and the bare target
  branch otherwise. The first diff command is the three-dot form for the statistics. A
  three-dot command that fails is followed at once by the two-dot command on the same
  reference, for the statistics and for the full diff alike, and \<open>getDiff\<close> returns an
  error only when a three-dot command and the two-dot command after it have both failed.
\<close>

theorem getDiff_prefers_origin_and_falls_back:
  "case getDiff w repoDir b t s of (r, s') \<Rightarrow>
     (let chk = Command [''git'', ''rev-parse'', ''--verify'', ''origin/'' @ t] repoDir;
          ref = (if p_err (exec w (cmds s) chk) \<noteq> None then t else ''origin/'' @ t);
          stat3 = Command [''git'', ''diff'', ''--stat'', ref @ ''...HEAD''] repoDir;
          stat2 = Command [''git'', ''diff'', ''--stat'', ref] repoDir;
          diff3 = Command [''git'', ''diff'', ref @ ''...HEAD''] repoDir;
          diff2 = Command [''git'', ''diff'', ref] repoDir
      in prefix (cmds s @ [chk, stat3]) (cmds s')
       \<and> set (new_cmds s s') \<subseteq> {chk, stat3, stat2, diff3, diff2}
       \<and> (p_err (exec w (cmds s @ [chk]) stat3) \<noteq> None \<longrightarrow>
             prefix (cmds s @ [chk, stat3, stat2]) (cmds s'))
       \<and> (\<forall>h. (h = cmds s @ [chk, stat3] \<or> h = cmds s @ [chk, stat3, stat2])
                \<and> prefix (h @ [diff3]) (cmds s') \<and> p_err (exec w h diff3) \<noteq> None \<longrightarrow>
                prefix (h @ [diff3, diff2]) (cmds s'))
       \<and> (\<forall>e. r = Inl e \<longrightarrow>
              (\<exists>h three two. cmds s' = h @ [three, two]
                 \<and> (three = stat3 \<and> two = stat2 \<or> three = diff3 \<and> two = diff2)
                 \<and> p_err (exec w h three) \<noteq> None
                 \<and> p_err (exec w (h @ [three]) two) \<noteq> None)))"
proof -
  define chk where "chk = Command [''git'', ''rev-parse'', ''--verify'', ''origin/'' @ t] repoDir"
  define ref where "ref = (if p_err (exec w (cmds s) chk) \<noteq> None then t else ''origin/'' @ t)"
  define stat3 where "stat3 = Command [''git'', ''diff'', ''--stat'', ref @ ''...HEAD''] repoDir"
  define stat2 where "stat2 = Command [''git'', ''diff'', ''--stat'', ref] repoDir"
  define diff3 where "diff3 = Command [''git'', ''diff'', ref @ ''...HEAD''] repoDir"
  define diff2 where "diff2 = Command [''git'', ''diff'', ref] repoDir"
  define h1 where "h1 = cmds s @ [chk]"
  define x3 where "x3 = exec w h1 stat3"
  define x2 where "x2 = exec w (h1 @ [stat3]) stat2"
  define x where "x = (if p_err x3 \<noteq> None then x2 else x3)"
  define h2 where "h2 = (if p_err x3 \<noteq> None then h1 @ [stat3, stat2] else h1 @ [stat3])"
  define y3 where "y3 = exec w h2 diff3"
  define y2 where "y2 = exec w (h2 @ [diff3]) diff2"
  define y where "y = (if p_err y3 \<noteq> None then y2 else y3)"
  define h3 where "h3 = (if p_err y3 \<noteq> None then h2 @ [diff3, diff2] else h2 @ [diff3])"
  define s1 where "s1 = s\<lparr>out := out s @ [''Getting diff between '' @ b @ '' and '' @ t @ ''...\<newline>'']\<rparr>"
  have eq: "getDiff w repoDir b t s =
     (case p_err x of
        Some err \<Rightarrow> (Inl (''failed to get diff stats: '' @ err), s1\<lparr>cmds := h2\<rparr>)
      | None \<Rightarrow>
          (case p_err y of
             Some err \<Rightarrow> (Inl (''failed to get diff: '' @ err), s1\<lparr>cmds := h3\<rparr>)
           | None \<Rightarrow> (Inr (''=== DIFF STATS ===\<newline>'' @ p_stdout x
                           @ ''\<newline>\<newline>=== FULL DIFF ===\<newline>'' @ p_stdout y),
                      s1\<lparr>cmds := h3\<rparr>)))"
    by (rule getDiff_run [where ?c0.0 = "exec w (cmds s) chk" and ref = ref and ?h1.0 = h1
          and ?x3.0 = x3 and ?x2.0 = x2 and ?h2.0 = h2 and ?y3.0 = y3 and ?y2.0 = y2 and ?h3.0 = h3])
       (simp_all only: chk_def ref_def stat3_def stat2_def diff3_def diff2_def h1_def x3_def
          x2_def x_def h2_def y3_def y2_def y_def h3_def s1_def)
  have dist: "stat3 \<noteq> stat2" "diff3 \<noteq> diff2" "stat3 \<noteq> diff3" "stat3 \<noteq> diff2"
    "stat2 \<noteq> diff3" "stat2 \<noteq> diff2" "chk \<noteq> stat3" "chk \<noteq> diff3" "chk \<noteq> stat2" "chk \<noteq> diff2"
    by (simp_all add: stat3_def stat2_def diff3_def diff2_def chk_def)
  have main: "case getDiff w repoDir b t s of (r, s') \<Rightarrow>
         prefix (cmds s @ [chk, stat3]) (cmds s')
       \<and> set (new_cmds s s') \<subseteq> {chk, stat3, stat2, diff3, diff2}
       \<and> (p_err (exec w (cmds s @ [chk]) stat3) \<noteq> None \<longrightarrow>
             prefix (cmds s @ [chk, stat3, stat2]) (cmds s'))
       \<and> (\<forall>h. (h = cmds s @ [chk, stat3] \<or> h = cmds s @ [chk, stat3, stat2])
                \<and> prefix (h @ [diff3]) (cmds s') \<and> p_err (exec w h diff3) \<noteq> None \<longrightarrow>
                prefix (h @ [diff3, diff2]) (cmds s'))
       \<and> (\<forall>e. r = Inl e \<longrightarrow>
              (\<exists>h three two. cmds s' = h @ [three, two]
                 \<and> (three = stat3 \<and> two = stat2 \<or> three = diff3 \<and> two = diff2)
                 \<and> p_err (exec w h three) \<noteq> None
                 \<and> p_err (exec w (h @ [three]) two) \<noteq> None))"
  proof (cases "p_err x")
    case (Some e)
    then have f3: "p_err x3 \<noteq> None" and f2: "p_err x2 = Some e"
      by (auto simp: x_def split: if_splits)
    have g: "getDiff w repoDir b t s = (Inl (''failed to get diff stats: '' @ e), s1\<lparr>cmds := h1 @ [stat3, stat2]\<rparr>)"
      using Some f3 by (simp add: eq h2_def)
    have ex: "\<exists>h three two. h1 @ [stat3, stat2] = h @ [three, two]
                 \<and> (three = stat3 \<and> two = stat2 \<or> three = diff3 \<and> two = diff2)
                 \<and> p_err (exec w h three) \<noteq> None
                 \<and> p_err (exec w (h @ [three]) two) \<noteq> None"
      using f3 f2 by (intro exI [of _ h1] exI [of _ stat3] exI [of _ stat2]) (simp add: x3_def x2_def)
    show ?thesis
      using f3 dist ex unfolding g
      by (auto simp: h1_def new_cmds_def s1_def x3_def)
  next
    case None
    have p2: "prefix (cmds s @ [chk, stat3]) h2"
      "p_err (exec w (cmds s @ [chk]) stat3) \<noteq> None \<longrightarrow> prefix (cmds s @ [chk, stat3, stat2]) h2"
      "h2 = cmds s @ [chk, stat3] \<or> h2 = cmds s @ [chk, stat3, stat2]"
      "p_err x3 = None \<longrightarrow> h2 = cmds s @ [chk, stat3]"
      "p_err x3 \<noteq> None \<longrightarrow> h2 = cmds s @ [chk, stat3, stat2]"
      by (auto simp: h2_def h1_def x3_def)
    show ?thesis
    proof (cases "p_err y")
      case (Some e)
      then have f3: "p_err y3 \<noteq> None" and f2: "p_err y2 = Some e"
        by (auto simp: y_def split: if_splits)
      have g: "getDiff w repoDir b t s = (Inl (''failed to get diff: '' @ e), s1\<lparr>cmds := h2 @ [diff3, diff2]\<rparr>)"
        using None Some f3 by (simp add: eq h3_def)
      have ex: "\<exists>h three two. h2 @ [diff3, diff2] = h @ [three, two]
                 \<and> (three = stat3 \<and> two = stat2 \<or> three = diff3 \<and> two = diff2)
                 \<and> p_err (exec w h three) \<noteq> None
                 \<and> p_err (exec w (h @ [three]) two) \<noteq> None"
        using f3 f2 by (intro exI [of _ h2] exI [of _ diff3] exI [of _ diff2]) (simp add: y3_def y2_def)
      show ?thesis
        using p2 dist ex unfolding g
        by (cases "p_err x3") (auto simp: new_cmds_def s1_def)
    next
      case n: None
      have g: "getDiff w repoDir b t s = (Inr (''=== DIFF STATS ===\<newline>'' @ p_stdout x
                           @ ''\<newline>\<newline>=== FULL DIFF ===\<newline>'' @ p_stdout y), s1\<lparr>cmds := h3\<rparr>)"
        using None n by (simp add: eq)
      have h3': "p_err y3 = None \<longrightarrow> h3 = h2 @ [diff3]" "p_err y3 \<noteq> None \<longrightarrow> h3 = h2 @ [diff3, diff2]"
        by (auto simp: h3_def)
      show ?thesis
        using p2 h3' dist unfolding g
        by (cases "p_err x3"; cases "p_err y3") (auto simp: new_cmds_def s1_def y3_def)
    qed
  qed
  show ?thesis
    unfolding Let_def
    using main [unfolded stat3_def stat2_def diff3_def diff2_def ref_def chk_def] .
qed

theorem getDiff_prefers_origin_and_falls_back_witness:
  "p_err (exec world0 (cmds st0)
            (Command [''git'', ''rev-parse'', ''--verify'', ''origin/'' @ ''main''] ''/repo'')) = None
   \<and> prefix [Command [''git'', ''rev-parse'', ''--verify'', ''origin/main''] ''/repo'',
              Command [''git'', ''diff'', ''--stat'', ''origin/main...HEAD''] ''/repo'']
        (cmds (snd (getDiff world0 ''/repo'' ''feat'' ''main'' st0)))
   \<and> p_err (exec world_no_git (cmds st0)
            (Command [''git'', ''rev-parse'', ''--verify'', ''origin/'' @ ''main''] ''/repo'')) \<noteq> None
   \<and> prefix [Command [''git'', ''rev-parse'', ''--verify'', ''origin/main''] ''/repo'',
              Command [''git'', ''diff'', ''--stat'', ''main...HEAD''] ''/repo'',
              Command [''git'', ''diff'', ''--stat'', ''main''] ''/repo'']
        (cmds (snd (getDiff world_no_git ''/repo'' ''feat'' ''main'' st0)))"
proof -
  have 1: "p_err (exec world0 (cmds st0)
            (Command [''git'', ''rev-parse'', ''--verify'', ''origin/'' @ ''main''] ''/repo'')) = None"
    by (simp add: world0_def ok_proc_def)
  have 2: "\<And>h c. p_err (exec world_no_git h c) \<noteq> None"
    by (simp add: world_no_git_def failed_proc_def)
  have 3: "cmds st0 = []" by (simp add: st0_def)
  show ?thesis
    using getDiff_prefers_origin_and_falls_back [where w = world0 and repoDir = "''/repo''"
            and b = "''feat''" and t = "''main''" and s = st0]
          getDiff_prefers_origin_and_falls_back [where w = world_no_git and repoDir = "''/repo''"
            and b = "''feat''" and t = "''main''" and s = st0]
          1 2 3
    by (simp add: split_beta Let_def)
qed

subsection \<open>Truncation of the displayed message\<close>

lemma display_msg_length: "length (display_msg m) \<le> 80"
  by (simp add: display_msg_def)

text \<open>
  Claim C3 asks that the displayed message never exceeds the maximum length and never
  splits a multi-byte character. The length bound holds (\<open>display_msg_length\<close>: at
  most 80 bytes). The cut is made at byte 77 whatever stands there: \<open>split_input\<close> is
  well-formed UTF-8 of 82 bytes, and what is displayed for it ends with the lead byte
  \<open>0xC3\<close> followed by the dots, which is not well-formed UTF-8.
\<close>

theorem display_msg_splits_character:
  "utf8_valid split_input
   \<and> length split_input = 82
   \<and> display_msg split_input = replicate 76 (CHR ''a'') @ [CHR 0xC3] @ ''...''
   \<and> \<not> utf8_valid (display_msg split_input)"
  by code_simp

subsection \<open>The Interactive Selector\<close>

















subsection \<open>The Crash Service Client\<close>

lemma status_msg_includes:
  "sublist (fmt_d (StatusCode resp)) (status_msg resp) \<and> sublist (Body resp) (status_msg resp)"
  unfolding status_msg_def by (intro conjI includes_mid includes_end)

lemma fetchApplications_cases:
  assumes "http_get w (raygunAPIBase @ ''/applications?count='' @ fmt_d count) (auth_headers token)
             = Inr resp"
  shows "fetchApplications w token count =
           (if StatusCode resp \<noteq> 200 then Inl (status_msg resp)
            else case unmarshal_apps w (Body resp) of
                   Inl e \<Rightarrow> Inl (''failed to decode applications: '' @ e)
                 | Inr xs \<Rightarrow> Inr xs)"
  using assms by (simp add: fetchApplications_def status_msg_def split: sum.splits)

lemma listErrorGroups_cases:
  assumes "http_get w (raygunAPIBase @ ''/applications/'' @ app_Identifier app @ ''/error-groups'')
             (auth_headers token) = Inr resp"
  shows "listErrorGroups w token app =
           (if StatusCode resp \<noteq> 200 then Inl (status_msg resp)
            else case unmarshal_groups w (Body resp) of
                   Inl e \<Rightarrow> Inl (''failed to decode error groups: '' @ e)
                 | Inr xs \<Rightarrow> Inr xs)"
  using assms by (simp add: listErrorGroups_def status_msg_def split: sum.splits)

lemma getErrorReportDetail_cases:
  assumes "http_get w (raygunAPIBase @ ''/applications/'' @ appId @ ''/error-groups/'' @ groupId
                       @ ''/errors?count=1'') (auth_headers token) = Inr resp"
  shows "getErrorReportDetail w token appId groupId =
           (if StatusCode resp \<noteq> 200 then Inl (status_msg resp)
            else case unmarshal_details w (Body resp) of
                   Inl e \<Rightarrow> Inl (''failed to decode error detail: '' @ e)
                 | Inr xs \<Rightarrow> (case xs of [] \<Rightarrow> Inl ''no error details found'' | d # _ \<Rightarrow> Inr d))"
  using assms by (simp add: getErrorReportDetail_def status_msg_def split: sum.splits)

text \<open>
  The claim that every 200 response with a well-formed body succeeds fails for the error
  detail: the body \<open>[]\<close> decodes to the empty list, and \<open>getErrorReportDetail\<close> answers
  \<open>no error details found\<close>.
\<close>

theorem empty_detail_list_counterexample:
  "http_get world_no_details
     (raygunAPIBase @ ''/applications/'' @ ''a2'' @ ''/error-groups/'' @ ''g2'' @ ''/errors?count=1'')
     (auth_headers ''tok'') = Inr \<lparr>StatusCode = 200, Body = ''[]''\<rparr>
   \<and> unmarshal_details world_no_details ''[]'' = Inr []
   \<and> getErrorReportDetail world_no_details ''tok'' ''a2'' ''g2'' = Inl ''no error details found''"
  by (simp add: world_no_details_def world0_def getErrorReportDetail_def)

text \<open>
  Claim C5, amended. For each of the three calls: a response whose status is not 200 is
  an error whose message holds the status code and the body; a 200 response whose body does
  not decode is an error whose message holds the decoder's error; a 200 response whose body
  decodes succeeds with the decoded list for the applications and the error groups, and for
  the error detail with the first element of the decoded list, or fails with
  \<open>no error details found\<close> when that list is empty.
\<close>

theorem crash_service_contract:
  "(http_get w (raygunAPIBase @ ''/applications?count='' @ fmt_d count) (auth_headers token)
      = Inr resp \<longrightarrow>
      (StatusCode resp \<noteq> 200 \<longrightarrow>
         fetchApplications w token count = Inl (status_msg resp))
    \<and> (StatusCode resp = 200 \<longrightarrow>
         (\<forall>e. unmarshal_apps w (Body resp) = Inl e \<longrightarrow>
              fetchApplications w token count = Inl (''failed to decode applications: '' @ e))
       \<and> (\<forall>xs. unmarshal_apps w (Body resp) = Inr xs \<longrightarrow>
              fetchApplications w token count = Inr xs)))
 \<and> (http_get w (raygunAPIBase @ ''/applications/'' @ app_Identifier app @ ''/error-groups'')
      (auth_headers token) = Inr resp \<longrightarrow>
      (StatusCode resp \<noteq> 200 \<longrightarrow>
         listErrorGroups w token app = Inl (status_msg resp))
    \<and> (StatusCode resp = 200 \<longrightarrow>
         (\<forall>e. unmarshal_groups w (Body resp) = Inl e \<longrightarrow>
              listErrorGroups w token app = Inl (''failed to decode error groups: '' @ e))
       \<and> (\<forall>xs. unmarshal_groups w (Body resp) = Inr xs \<longrightarrow>
              listErrorGroups w token app = Inr xs)))
 \<and> (http_get w (raygunAPIBase @ ''/applications/'' @ appId @ ''/error-groups/'' @ groupId
               @ ''/errors?count=1'') (auth_headers token) = Inr resp \<longrightarrow>
      (StatusCode resp \<noteq> 200 \<longrightarrow>
         getErrorReportDetail w token appId groupId = Inl (status_msg resp))
    \<and> (StatusCode resp = 200 \<longrightarrow>
         (\<forall>e. unmarshal_details w (Body resp) = Inl e \<longrightarrow>
              getErrorReportDetail w token appId groupId
                = Inl (''failed to decode error detail: '' @ e))
       \<and> (\<forall>d ds. unmarshal_details w (Body resp) = Inr (d # ds) \<longrightarrow>
              getErrorReportDetail w token appId groupId = Inr d)
       \<and> (unmarshal_details w (Body resp) = Inr [] \<longrightarrow>
              getErrorReportDetail w token appId groupId = Inl ''no error details found'')))
 \<and> sublist (fmt_d (StatusCode resp)) (status_msg resp)
 \<and> sublist (Body resp) (status_msg resp)"
  by (simp add: fetchApplications_cases listErrorGroups_cases getErrorReportDetail_cases
        status_msg_includes)

theorem crash_service_contract_witness:
  "fetchApplications world0 ''tok'' 20 = Inr [app1, app2]
   \<and> listErrorGroups world0 ''tok'' app2 = Inr [group1, group2]
   \<and> getErrorReportDetail world0 ''tok'' ''a2'' ''g2'' = Inr detail1
   \<and> fetchApplications world_unauthorized ''tok'' 20
       = Inl ''raygun API returned status 401: Unauthorized''
   \<and> getErrorReportDetail world_unauthorized ''tok'' ''a2'' ''g2''
       = Inl ''raygun API returned status 401: Unauthorized''"
proof -
  have m: "status_msg \<lparr>StatusCode = 401, Body = ''Unauthorized''\<rparr>
             = ''raygun API returned status 401: Unauthorized''"
    by code_simp
  have a: "fetchApplications world0 ''tok'' 20 = Inr [app1, app2]
   \<and> listErrorGroups world0 ''tok'' app2 = Inr [group1, group2]
   \<and> getErrorReportDetail world0 ''tok'' ''a2'' ''g2'' = Inr detail1"
    using crash_service_contract [where w = world0 and count = 20 and token = "''tok''"
            and resp = "\<lparr>StatusCode = 200, Body = ''[]''\<rparr>" and app = app2
            and appId = "''a2''" and groupId = "''g2''"]
    by (simp add: world0_def)
  have b: "fetchApplications world_unauthorized ''tok'' 20 = Inl (status_msg \<lparr>StatusCode = 401, Body = ''Unauthorized''\<rparr>)
   \<and> getErrorReportDetail world_unauthorized ''tok'' ''a2'' ''g2''
       = Inl (status_msg \<lparr>StatusCode = 401, Body = ''Unauthorized''\<rparr>)"
    using crash_service_contract [where w = world_unauthorized and count = 20 and token = "''tok''"
            and resp = "\<lparr>StatusCode = 401, Body = ''Unauthorized''\<rparr>" and app = app2
            and appId = "''a2''" and groupId = "''g2''"]
    by (simp add: world_unauthorized_def)
  show ?thesis using a b unfolding m by blast
qed

subsection \<open>Checking out a branch\<close>

text \<open>
  The claim that a failed fetch or pull is shown as a warning fails: with fetch and pull
  failing and the checkout succeeding, the only line written is the one that reports the
  checkout.
\<close>

theorem silent_fetch_failure_counterexample:
  "p_err (exec world_offline [] (Command [''git'', ''fetch'', ''--all''] ''/repo'')) = Some ''exit status 128''
   \<and> p_err (exec world_offline [Command [''git'', ''fetch'', ''--all''] ''/repo'',
                                 Command [''git'', ''checkout'', ''main''] ''/repo'']
               (Command [''git'', ''pull''] ''/repo'')) = Some ''exit status 128''
   \<and> checkoutBranch world_offline ''/repo'' ''main'' st0
       = (None, \<lparr>out = [''Checked out branch: main\<newline>''],
                 cmds = [Command [''git'', ''fetch'', ''--all''] ''/repo'',
                         Command [''git'', ''checkout'', ''main''] ''/repo'',
                         Command [''git'', ''pull''] ''/repo''],
                 scans = 0\<rparr>)"
  by (simp add: checkoutBranch_def world_offline_def world0_def st0_def run_def print_def
        ok_proc_def failed_proc_def)

text \<open>
  Claim C6, amended. \<open>checkoutBranch\<close> fails exactly when \<open>git checkout\<close> fails, whatever
  \<open>git fetch\<close> and \<open>git pull\<close> report. On success it has run fetch, checkout and pull and
  written the single line \<open>Checked out branch\<close>; on failure it has run fetch and checkout and
  written nothing. No line is written for a failure of fetch or of pull.
\<close>

theorem checkout_ignores_fetch_and_pull:
  "(case checkoutBranch w repoDir b s of (r, s') \<Rightarrow>
      (r = None \<longleftrightarrow>
         p_err (exec w (cmds s @ [Command [''git'', ''fetch'', ''--all''] repoDir])
                  (Command [''git'', ''checkout'', b] repoDir)) = None)
    \<and> (r = None \<longrightarrow>
         out s' = out s @ [''Checked out branch: '' @ b @ ''\<newline>'']
       \<and> cmds s' = cmds s @ [Command [''git'', ''fetch'', ''--all''] repoDir,
                               Command [''git'', ''checkout'', b] repoDir,
                               Command [''git'', ''pull''] repoDir])
    \<and> (r \<noteq> None \<longrightarrow>
         out s' = out s
       \<and> cmds s' = cmds s @ [Command [''git'', ''fetch'', ''--all''] repoDir,
                               Command [''git'', ''checkout'', b] repoDir]))"
  by (simp add: checkoutBranch_def Let_def split_beta split: option.splits)

theorem checkout_ignores_fetch_and_pull_witness:
  "fst (checkoutBranch world_offline ''/repo'' ''main'' st0) = None
   \<and> out (snd (checkoutBranch world_offline ''/repo'' ''main'' st0)) = [''Checked out branch: main\<newline>'']
   \<and> fst (checkoutBranch world_offline ''/repo'' ''gone'' st0) \<noteq> None
   \<and> out (snd (checkoutBranch world_offline ''/repo'' ''gone'' st0)) = []"
  using checkout_ignores_fetch_and_pull [where w = world_offline and repoDir = "''/repo''"
          and b = "''main''" and s = st0]
        checkout_ignores_fetch_and_pull [where w = world_offline and repoDir = "''/repo''"
          and b = "''gone''" and s = st0]
  by (simp add: world_offline_def world0_def st0_def ok_proc_def failed_proc_def split_beta)

subsection \<open>The Prompt Renderer\<close>

text \<open>
  What a rendered prompt contains depends on the template. An action whose value is the
  text \<open>v\<close> puts \<open>v\<close> into the prompt as it is; a byte slice printed by the plain action
  \<open>{{.CrashDetails}}\<close> appears as the list of its bytes in decimal, here for the JSON text
  \<open>{}\<close>.
\<close>

lemma Execute_extends: "Execute t data buf = Inr x \<Longrightarrow> prefix buf x"
proof (induction t arbitrary: buf)
  case Nil
  then show ?case by simp
next
  case (Cons n ns)
  then show ?case
    by (auto split: sum.splits dest: append_prefixD)
qed

lemma Execute_contains:
  "Execute t data buf = Inr x \<Longrightarrow> n \<in> set t \<Longrightarrow> exec_node data n = Inr v \<Longrightarrow> sublist v x"
proof (induction t arbitrary: buf)
  case Nil
  then show ?case by simp
next
  case (Cons m ms)
  show ?case
  proof (cases "n = m")
    case True
    with Cons.prems have "Execute ms data (buf @ v) = Inr x" by simp
    then have "prefix (buf @ v) x" by (rule Execute_extends)
    then obtain r where "x = buf @ v @ r" by (auto simp: prefix_def)
    then show ?thesis by simp
  next
    case False
    with Cons.prems obtain y where "Execute ms data (buf @ y) = Inr x" "n \<in> set ms"
      by (auto split: sum.splits)
    then show ?thesis using Cons.IH Cons.prems(3) by blast
  qed
qed

lemma plain_action_on_bytes:
  "Execute [TField ''CrashDetails''] (errors_promptData ''boom'' ''{}'' [''repo'', ''RaygunError.md'']) []
     = Inr ''[123 125]''"
  by code_simp

subsection \<open>The Repository Resolver\<close>

lemma resolveRepo_cases:
  "filepath_Abs w p = Inr a \<Longrightarrow>
   resolveRepo w p s =
     (if os_Stat (fs w (cmds s)) (a @ [''.git'']) = Some ENOENT
      then Inl (''not a git repository: '' @ path_str a) else Inr a)"
  by (simp add: resolveRepo_def os_IsNotExist_def)

lemma os_Stat_entry:
  "os_Stat root (p @ [x]) =
     (case os_Stat root p of
        Some e \<Rightarrow> Some e
      | None \<Rightarrow>
          (case lookup_node root p of
             Some (Dir f) \<Rightarrow>
               (case f x of Absent \<Rightarrow> Some ENOENT | Refused e \<Rightarrow> Some e | Entry n \<Rightarrow> None)
           | _ \<Rightarrow> Some ENOTDIR))"
  by (induction root p rule: os_Stat.induct) (auto split: option.splits node.splits entry.splits)

lemma os_Stat_lookup: "lookup_node root p \<noteq> None \<Longrightarrow> os_Stat root p = None"
  by (induction root p rule: os_Stat.induct) (auto split: entry.splits)

lemma git_entry_resolves:
  "filepath_Abs w p = Inr a \<Longrightarrow> has_git_entry (fs w (cmds s)) a \<Longrightarrow> resolveRepo w p s = Inr a"
  using os_Stat_lookup [of "fs w (cmds s)" a]
  by (auto simp: resolveRepo_cases os_Stat_entry has_git_entry_def
           split: option.splits node.splits entry.splits)

lemma directory_without_git_refused:
  "filepath_Abs w p = Inr a \<Longrightarrow> lookup_node (fs w (cmds s)) a = Some (Dir f) \<Longrightarrow>
   f ''.git'' = Absent \<Longrightarrow>
   resolveRepo w p s = Inl (''not a git repository: '' @ path_str a)"
  using os_Stat_lookup [of "fs w (cmds s)" a]
  by (auto simp: resolveRepo_cases os_Stat_entry)

text \<open>
  Claim C8 asks that resolution succeeds for every path with a \<open>.git\<close> entry and fails with
  \<open>not a git repository\<close> for every path without one. The first half holds
  (\<open>git_entry_resolves\<close>), and a directory without the entry is refused
  (\<open>directory_without_git_refused\<close>). A path that leads to a regular file has no \<open>.git\<close>
  entry and is not refused: \<open>os.Stat\<close> of \<open>/repo/notes.txt/.git\<close> fails with \<open>ENOTDIR\<close>,
  which \<open>os.IsNotExist\<close> does not hold of, so the check passes and \<open>start\<close> goes on to
  run git, whose failure is the error reported.
\<close>

theorem regular_file_path_passes_check:
  "filepath_Abs world_file ''/repo/notes.txt'' = Inr [''repo'', ''notes.txt'']
   \<and> lookup_node (fs world_file (cmds st0)) [''repo'', ''notes.txt''] = Some File
   \<and> \<not> has_git_entry (fs world_file (cmds st0)) [''repo'', ''notes.txt'']
   \<and> os_Stat (fs world_file (cmds st0)) [''repo'', ''notes.txt'', ''.git''] = Some ENOTDIR
   \<and> resolveRepo world_file ''/repo/notes.txt'' st0 = Inr [''repo'', ''notes.txt'']
   \<and> review_start world_file (Inr []) flags_file st0
       = (Some ''failed to get current branch: chdir /repo/notes.txt: not a directory'',
          \<lparr>out = [''Reviewing repository: /repo/notes.txt\<newline>''],
            cmds = [Command [''git'', ''rev-parse'', ''--abbrev-ref'', ''HEAD'']
                      ''/repo/notes.txt''],
            scans = 0\<rparr>)"
  by (simp add: world_file_def world0_def st0_def repo_tree_def dir_of_def has_git_entry_def
        resolveRepo_def os_IsNotExist_def review_start_def flags_file_def getCurrentBranch_def
        run_def print_def path_str_def)

subsection \<open>The Output Publisher\<close>

lemma LaunchClaude_goos:
  "LaunchClaude (w\<lparr>goos := g\<rparr>) d p prompt m s = LaunchClaude w d p prompt m s"
  by (simp add: LaunchClaude_def run_def open_output_goos Let_def split: option.splits)

lemma launchClaudeReview_goos:
  "launchClaudeReview (w\<lparr>goos := g\<rparr>) tmpl t d b diff s = launchClaudeReview w tmpl t d b diff s"
  by (simp add: launchClaudeReview_def run_def open_output_goos Let_def split: option.splits sum.splits)

lemma launchClaudeErrorAnalysis_goos:
  "launchClaudeErrorAnalysis (w\<lparr>goos := g\<rparr>) tmpl d f c s = launchClaudeErrorAnalysis w tmpl d f c s"
  by (simp add: launchClaudeErrorAnalysis_def run_def open_output_goos Let_def split: option.splits sum.splits)

text \<open>
  The claim that the viewer is chosen by operating system fails: on \<open>linux\<close>, where no
  program \<open>open\<close> exists, the command run is \<open>open\<close>, and the run is the same on
  \<open>windows\<close>.
\<close>

theorem hardcoded_open_counterexample:
  "goos world_no_viewer = ''linux''
   \<and> LaunchClaude world_no_viewer [''repo''] [''repo'', ''Review.md''] ''hi'' None st0
      = (None,
         \<lparr>out = [''Opening output file: /repo/Review.md\<newline>'',
                 ''Warning: could not open output file: executable file not found in $PATH\<newline>''],
           cmds = [Command [''claude'', ''--model=Sonnet'', ''--dangerously-skip-permissions'',
                            ''-p'', ''hi''] ''/repo'',
                   Command [''open'', ''/repo/Review.md''] []],
           scans = 0\<rparr>)
   \<and> LaunchClaude (world_no_viewer\<lparr>goos := ''windows''\<rparr>) [''repo''] [''repo'', ''Review.md''] ''hi'' None st0
      = LaunchClaude world_no_viewer [''repo''] [''repo'', ''Review.md''] ''hi'' None st0"
  by (simp add: LaunchClaude_def world_no_viewer_def world0_def st0_def repo_tree_def dir_of_def
        open_output_def run_def print_def ok_proc_def claudeModelSonnet_def path_str_def)

text \<open>
  Claim C9, amended. The output file is opened only if \<open>os.Stat\<close> finds it; the command
  is then \<open>open\<close> with the path, and neither it nor anything else the launchers do depends
  on the operating system; a failure of \<open>open\<close> adds a warning line. \<open>LaunchClaude\<close> and
  \<open>launchClaudeReview\<close> return no error exactly when the \<open>claude\<close> process reports none,
  whatever the attempt to open the file does.
\<close>

theorem output_publisher:
  "(os_Stat (fs w (cmds s)) p \<noteq> None \<longrightarrow> open_output w what p s = s)
 \<and> (os_Stat (fs w (cmds s)) p = None \<longrightarrow>
       new_cmds s (open_output w what p s) = [Command [''open'', path_str p] []])
 \<and> (\<forall>err. os_Stat (fs w (cmds s)) p = None
          \<and> p_err (exec w (cmds s) (Command [''open'', path_str p] [])) = Some err \<longrightarrow>
       new_out s (open_output w what p s)
         = [''Opening '' @ what @ '' file: '' @ path_str p @ ''\<newline>'',
            ''Warning: could not open '' @ what @ '' file: '' @ err @ ''\<newline>''])
 \<and> open_output (w\<lparr>goos := g\<rparr>) what p s = open_output w what p s
 \<and> LaunchClaude (w\<lparr>goos := g\<rparr>) d p prompt m s = LaunchClaude w d p prompt m s
 \<and> launchClaudeReview (w\<lparr>goos := g\<rparr>) tmpl tb d b diff s = launchClaudeReview w tmpl tb d b diff s
 \<and> (fst (LaunchClaude w d p prompt m s) = None \<longleftrightarrow>
       p_err (exec w (cmds s)
                (Command [''claude'',
                          ''--model='' @ (case m of None \<Rightarrow> claudeModelSonnet
                                          | Some x \<Rightarrow> if x \<noteq> [] then x else claudeModelSonnet),
                          ''--dangerously-skip-permissions'', ''-p'', prompt] (path_str d))) = None)
 \<and> (\<forall>t x. tmpl = Inr t
          \<and> Execute t (review_promptData b tb diff (d @ [''Review.md''])) [] = Inr x \<longrightarrow>
       (fst (launchClaudeReview w tmpl tb d b diff s) = None \<longleftrightarrow>
          p_err (exec w (cmds s)
                   (Command [''claude'', ''--model='' @ claudeModelSonnet,
                             ''--dangerously-skip-permissions'', ''-p'', x] (path_str d))) = None))"
proof (intro conjI allI impI)
  show "os_Stat (fs w (cmds s)) p \<noteq> None \<Longrightarrow> open_output w what p s = s"
    by (simp add: open_output_cases)
  show "os_Stat (fs w (cmds s)) p = None \<Longrightarrow>
       new_cmds s (open_output w what p s) = [Command [''open'', path_str p] []]"
    by (simp add: open_output_cases new_cmds_def split: option.splits)
  show "\<And>err. os_Stat (fs w (cmds s)) p = None
          \<and> p_err (exec w (cmds s) (Command [''open'', path_str p] [])) = Some err \<Longrightarrow>
       new_out s (open_output w what p s)
         = [''Opening '' @ what @ '' file: '' @ path_str p @ ''\<newline>'',
            ''Warning: could not open '' @ what @ '' file: '' @ err @ ''\<newline>'']"
    by (simp add: open_output_cases new_out_def)
  show "open_output (w\<lparr>goos := g\<rparr>) what p s = open_output w what p s"
    by (rule open_output_goos)
  show "LaunchClaude (w\<lparr>goos := g\<rparr>) d p prompt m s = LaunchClaude w d p prompt m s"
    by (rule LaunchClaude_goos)
  show "launchClaudeReview (w\<lparr>goos := g\<rparr>) tmpl tb d b diff s = launchClaudeReview w tmpl tb d b diff s"
    by (rule launchClaudeReview_goos)
  show "fst (LaunchClaude w d p prompt m s) = None \<longleftrightarrow>
       p_err (exec w (cmds s)
                (Command [''claude'',
                          ''--model='' @ (case m of None \<Rightarrow> claudeModelSonnet
                                          | Some x \<Rightarrow> if x \<noteq> [] then x else claudeModelSonnet),
                          ''--dangerously-skip-permissions'', ''-p'', prompt] (path_str d))) = None"
    by (simp add: LaunchClaude_def Let_def split_beta split: option.splits)
  show "\<And>t x. tmpl = Inr t
          \<and> Execute t (review_promptData b tb diff (d @ [''Review.md''])) [] = Inr x \<Longrightarrow>
       (fst (launchClaudeReview w tmpl tb d b diff s) = None \<longleftrightarrow>
          p_err (exec w (cmds s)
                   (Command [''claude'', ''--model='' @ claudeModelSonnet,
                             ''--dangerously-skip-permissions'', ''-p'', x] (path_str d))) = None)"
    by (simp add: launchClaudeReview_def Let_def split_beta split: option.splits)
qed

theorem output_publisher_witness:
  "os_Stat (fs world_no_viewer (cmds st0)) [''repo'', ''Review.md''] = None
   \<and> new_cmds st0 (open_output world_no_viewer ''review'' [''repo'', ''Review.md''] st0)
       = [Command [''open'', path_str [''repo'', ''Review.md'']] []]
   \<and> os_Stat (fs world_no_viewer (cmds st0)) [''repo'', ''Missing.md''] \<noteq> None
   \<and> open_output world_no_viewer ''review'' [''repo'', ''Missing.md''] st0 = st0
   \<and> fst (LaunchClaude world_no_viewer [''repo''] [''repo'', ''Review.md''] ''hi'' None st0) = None"
proof -
  have 1: "os_Stat (fs world_no_viewer (cmds st0)) [''repo'', ''Review.md''] = None"
    and 2: "os_Stat (fs world_no_viewer (cmds st0)) [''repo'', ''Missing.md''] \<noteq> None"
    by (simp_all add: world_no_viewer_def world0_def repo_tree_def dir_of_def)
  have 3: "p_err (exec world_no_viewer (cmds st0)
                (Command [''claude'',
                          ''--model='' @ (case None of None \<Rightarrow> claudeModelSonnet
                                          | Some x \<Rightarrow> if x \<noteq> [] then x else claudeModelSonnet),
                          ''--dangerously-skip-permissions'', ''-p'', ''hi''] (path_str [''repo'']))) = None"
    by (simp add: world_no_viewer_def world0_def ok_proc_def)
  show ?thesis
    using output_publisher [where w = world_no_viewer and s = st0 and p = "[''repo'', ''Review.md'']"
            and what = "''review''" and d = "[''repo'']" and prompt = "''hi''" and m = None]
          output_publisher [where w = world_no_viewer and s = st0 and p = "[''repo'', ''Missing.md'']"
            and what = "''review''"]
          1 2 3
    by simp
qed

subsection \<open>Selecting the application by name\<close>

text \<open>
  The claim that a name no fetched application has is reported with the name fails when
  the fetched list is empty: the error is \<open>no applications found\<close>.
\<close>

theorem no_applications_counterexample:
  "fetchApplications world_no_apps ''tok'' 20 = Inr []
   \<and> chooseRaygunApplication world_no_apps ''MyApp-prod'' ''tok'' st0
       = (Inl ''no applications found'', st0)
   \<and> \<not> sublist ''MyApp-prod'' ''no applications found''"
proof (intro conjI)
  show "fetchApplications world_no_apps ''tok'' 20 = Inr []" by (rule no_apps_fetch)
  show "chooseRaygunApplication world_no_apps ''MyApp-prod'' ''tok'' st0
       = (Inl ''no applications found'', st0)"
    by (simp add: chooseRaygunApplication_flag no_apps_fetch)
  show "\<not> sublist ''MyApp-prod'' ''no applications found''"
    by code_simp
qed

text \<open>
  Claim C10, amended. With a non-empty project name \<open>chooseRaygunApplication\<close> writes
  nothing and reads nothing. When the fetched list is not empty, the result is the first
  application whose name equals the project name, and when there is none the error
  \<open>raygun project '<name>' not found\<close>, which contains the name. When the fetched list is
  empty the error is \<open>no applications found\<close>.
\<close>

theorem project_flag_selects_by_name:
  assumes "project \<noteq> []"
  shows "snd (chooseRaygunApplication w project token s) = s
   \<and> (\<forall>apps. fetchApplications w token 20 = Inr apps \<and> apps \<noteq> [] \<longrightarrow>
         (\<forall>a. fst (chooseRaygunApplication w project token s) = Inr a \<longleftrightarrow>
               find (\<lambda>a. app_Name a = project) apps = Some a)
       \<and> ((\<forall>a \<in> set apps. app_Name a \<noteq> project) \<longrightarrow>
            fst (chooseRaygunApplication w project token s) = Inl (not_found_msg project)))
   \<and> (fetchApplications w token 20 = Inr [] \<longrightarrow>
         fst (chooseRaygunApplication w project token s) = Inl ''no applications found'')
   \<and> sublist project (not_found_msg project)"
proof (intro conjI allI impI)
  show "snd (chooseRaygunApplication w project token s) = s"
    using assms by (simp add: chooseRaygunApplication_flag)
next
  fix apps a
  assume "fetchApplications w token 20 = Inr apps \<and> apps \<noteq> []"
  then show "fst (chooseRaygunApplication w project token s) = Inr a \<longleftrightarrow>
               find (\<lambda>a. app_Name a = project) apps = Some a"
    using assms by (auto simp: chooseRaygunApplication_flag split: option.splits)
next
  fix apps
  assume "fetchApplications w token 20 = Inr apps \<and> apps \<noteq> []"
    and "\<forall>a \<in> set apps. app_Name a \<noteq> project"
  then show "fst (chooseRaygunApplication w project token s) = Inl (not_found_msg project)"
    using assms by (auto simp: chooseRaygunApplication_flag find_None_iff split: option.splits)
next
  assume "fetchApplications w token 20 = Inr []"
  then show "fst (chooseRaygunApplication w project token s) = Inl ''no applications found''"
    using assms by (simp add: chooseRaygunApplication_flag)
next
  show "sublist project (not_found_msg project)"
    unfolding not_found_msg_def by (metis append_assoc sublist_appendI)
qed

theorem project_flag_selects_by_name_witness:
  "''MyApp-prod'' \<noteq> [] \<and> fetchApplications world0 ''tok'' 20 = Inr [app1, app2]
   \<and> chooseRaygunApplication world0 ''MyApp-prod'' ''tok'' st0 = (Inr app2, st0)
   \<and> fst (chooseRaygunApplication world0 ''Other'' ''tok'' st0) = Inl (not_found_msg ''Other'')"
proof -
  have ne: "''MyApp-prod'' \<noteq> []" and ne': "''Other'' \<noteq> []" by simp_all
  have f: "find (\<lambda>a. app_Name a = ''MyApp-prod'') [app1, app2] = Some app2"
    by (simp add: app1_def app2_def)
  have g: "\<forall>a \<in> set [app1, app2]. app_Name a \<noteq> ''Other''"
    by (simp add: app1_def app2_def)
  from project_flag_selects_by_name [OF ne, of world0 "''tok''" st0] world0_fetch f
  have "chooseRaygunApplication world0 ''MyApp-prod'' ''tok'' st0 = (Inr app2, st0)"
    by (metis list.distinct(1) prod.collapse)
  moreover from project_flag_selects_by_name [OF ne', of world0 "''tok''" st0] world0_fetch g
  have "fst (chooseRaygunApplication world0 ''Other'' ''tok'' st0) = Inl (not_found_msg ''Other'')"
    by (metis list.distinct(1))
  ultimately show ?thesis using ne world0_fetch by simp
qed

end
